theory Spec2Isabelle
  imports Complex_Main
begin

section \<open>Common conventions\<close>

text \<open>
  Python floats are modelled as real numbers: every comparison of the source is the
  comparison of the values, and NaN is modelled as an absent value where the source tests
  for it. A point in time (\<open>datetime.now()\<close>) is a number of seconds of local time;
  the calendar day it falls on is \<open>date_of\<close>, which stands for
  \<open>strftime('%Y-%m-%d')\<close> and for \<open>.date()\<close>.
\<close>

type_synonym datetime = nat

definition date_of :: "datetime \<Rightarrow> nat" where
  "date_of t = t div 86400"

definition time_of_day :: "datetime \<Rightarrow> nat" where
  "time_of_day t = t mod 86400"

text \<open>
  Truth value of an \<open>Optional[float]\<close> in a Python condition: \<open>None\<close> and
  \<open>0.0\<close> are false, every other number is true.
\<close>

fun truthy :: "real option \<Rightarrow> bool" where
  "truthy None = False"
| "truthy (Some v) = (v \<noteq> 0)"

section \<open>price\_monitor.py: the price monitor\<close>

datatype msg_type =
    MSG_TYPE_AI_ANALYSIS
  | MSG_TYPE_BUY
  | MSG_TYPE_TAKE_PROFIT
  | MSG_TYPE_STOP_LOSS

text \<open>The fields of \<open>AIStockRecommendation\<close> that the monitor reads.\<close>

record recommendation =
  stock_code :: string
  stock_name :: string
  sector :: "string option"
  buy_price_min :: "real option"
  buy_price_max :: "real option"
  take_profit_price_min :: "real option"
  take_profit_price_max :: "real option"
  stop_loss_price_min :: "real option"
  stop_loss_price_max :: "real option"

text \<open>
  The text \<open>f"[{min}, {max}]"\<close> handed to \<open>_trigger_push\<close> is kept as the pair of
  its two numbers.
\<close>

type_synonym trade_range = "real \<times> real"

text \<open>
  \<open>_check_price_condition\<close> is three \<open>if\<close> blocks in a row, each of which may call
  \<open>_trigger_push\<close>. \<open>price_triggers\<close> lists the calls it makes, in the order of the
  source: buy, take profit, stop loss. \<open>the\<close> is applied only under the guard that the
  bound is present.
\<close>

definition buy_trigger :: "recommendation \<Rightarrow> real \<Rightarrow> (msg_type \<times> trade_range) list" where
  "buy_trigger rec current_price =
     (if truthy (buy_price_min rec) \<and> truthy (buy_price_max rec) then
        (if the (buy_price_min rec) \<le> current_price \<and> current_price \<le> the (buy_price_max rec)
         then [(MSG_TYPE_BUY, (the (buy_price_min rec), the (buy_price_max rec)))]
         else [])
      else [])"

definition take_profit_trigger :: "recommendation \<Rightarrow> real \<Rightarrow> (msg_type \<times> trade_range) list" where
  "take_profit_trigger rec current_price =
     (if truthy (take_profit_price_min rec) \<and> truthy (take_profit_price_max rec) then
        (if current_price \<ge> the (take_profit_price_min rec)
         then [(MSG_TYPE_TAKE_PROFIT,
                (the (take_profit_price_min rec), the (take_profit_price_max rec)))]
         else [])
      else [])"

definition stop_loss_trigger :: "recommendation \<Rightarrow> real \<Rightarrow> (msg_type \<times> trade_range) list" where
  "stop_loss_trigger rec current_price =
     (if truthy (stop_loss_price_min rec) \<and> truthy (stop_loss_price_max rec) then
        (if current_price \<le> the (stop_loss_price_max rec)
         then [(MSG_TYPE_STOP_LOSS,
                (the (stop_loss_price_min rec), the (stop_loss_price_max rec)))]
         else [])
      else [])"

definition price_triggers :: "recommendation \<Rightarrow> real \<Rightarrow> (msg_type \<times> trade_range) list" where
  "price_triggers rec current_price =
     buy_trigger rec current_price @ take_profit_trigger rec current_price
       @ stop_loss_trigger rec current_price"

definition triggers :: "recommendation \<Rightarrow> real \<Rightarrow> msg_type \<Rightarrow> bool" where
  "triggers rec current_price ty = (ty \<in> fst ` set (price_triggers rec current_price))"

subsection \<open>Push records and \<open>_trigger_push\<close>\<close>

text \<open>
  \<open>_get_msg_type_name\<close> returns a Chinese label; the labels are written here in
  English.
\<close>

fun get_msg_type_name :: "msg_type \<Rightarrow> string" where
  "get_msg_type_name MSG_TYPE_AI_ANALYSIS = ''AI analysis''"
| "get_msg_type_name MSG_TYPE_BUY = ''buy triggered''"
| "get_msg_type_name MSG_TYPE_TAKE_PROFIT = ''take profit triggered''"
| "get_msg_type_name MSG_TYPE_STOP_LOSS = ''stop loss triggered''"

text \<open>
  The Markdown message of \<open>_trigger_push\<close>, kept as the values it is formatted from:
  type name, stock name, stock code, current price, trade range, sector (or the
  placeholder for a missing one) and the time of day.
\<close>

datatype content = Content string string string real trade_range string nat

record push_message_record =
  pr_stock_code :: string
  pr_stock_name :: string
  pr_sector :: "string option"
  pr_message_type :: msg_type
  pr_message_content :: content
  pr_current_price :: real
  pr_trade_range :: trade_range
  pr_created_at :: datetime

text \<open>
  Modelled from the spec: \<open>has_pushed_today\<close> and \<open>save_push_record\<close> are methods of
  the database manager in \<open>storage.py\<close>, which is not among the sources. The spec
  (sections 3 and 4.5) gives them: the first tells whether a PushRecord exists for
  \<open>(symbol, message_type, today)\<close>, the second persists the record, whose
  \<open>created_at\<close> is the time of saving.
\<close>

definition record_key :: "push_message_record \<Rightarrow> string \<times> msg_type \<times> nat" where
  "record_key r = (pr_stock_code r, pr_message_type r, date_of (pr_created_at r))"

definition has_pushed_today ::
  "push_message_record list \<Rightarrow> datetime \<Rightarrow> string \<Rightarrow> msg_type \<Rightarrow> bool" where
  "has_pushed_today db now code ty = ((code, ty, date_of now) \<in> set (map record_key db))"

definition save_push_record ::
  "push_message_record list \<Rightarrow> datetime \<Rightarrow> push_message_record \<Rightarrow> push_message_record list" where
  "save_push_record db now r = db @ [r\<lparr>pr_created_at := now\<rparr>]"

text \<open>
  What the surroundings do during one call of \<open>_trigger_push\<close>: the clock, whether
  saving the record raises, what \<open>is_available\<close> answers (or that it raises), and what
  \<open>send\<close> does.
\<close>

datatype send_outcome = Delivered | NotDelivered | SendRaises

datatype availability = Available | Unavailable | AvailabilityRaises

record push_env =
  pe_now :: datetime
  pe_save_raises :: bool
  pe_notifier_available :: availability
  pe_send :: send_outcome

text \<open>
  The effects of \<open>_trigger_push\<close> in the order they happen: the debug line of a
  suppressed push, the saved record, the call of \<open>send\<close> with its outcome, the warning
  that the service is unavailable, the error line of the \<open>except\<close> branch.
\<close>

datatype event =
    SkipAlreadyPushed string msg_type
  | RecordSaved push_message_record
  | SendAttempt content send_outcome
  | NotifierUnavailable
  | PushFailed

record monitor_state =
  push_records :: "push_message_record list"
  events :: "event list"

definition log_event :: "event \<Rightarrow> monitor_state \<Rightarrow> monitor_state" where
  "log_event e st = st\<lparr>events := events st @ [e]\<rparr>"

definition build_record ::
  "datetime \<Rightarrow> recommendation \<Rightarrow> msg_type \<Rightarrow> real \<Rightarrow> trade_range \<Rightarrow> push_message_record" where
  "build_record now rec ty current_price trade_rng =
     \<lparr>pr_stock_code = stock_code rec,
      pr_stock_name = stock_name rec,
      pr_sector = sector rec,
      pr_message_type = ty,
      pr_message_content =
        Content (get_msg_type_name ty) (stock_name rec) (stock_code rec) current_price trade_rng
          (case sector rec of None \<Rightarrow> ''unknown'' | Some s \<Rightarrow> if s = [] then ''unknown'' else s)
          (time_of_day now),
      pr_current_price = current_price,
      pr_trade_range = trade_rng,
      pr_created_at = now\<rparr>"

definition trigger_push ::
  "push_env \<Rightarrow> monitor_state \<Rightarrow> recommendation \<Rightarrow> msg_type \<Rightarrow> real \<Rightarrow> trade_range
     \<Rightarrow> monitor_state" where
  "trigger_push env st rec ty current_price trade_rng =
     (if has_pushed_today (push_records st) (pe_now env) (stock_code rec) ty then
        log_event (SkipAlreadyPushed (stock_code rec) ty) st
      else
        let r = build_record (pe_now env) rec ty current_price trade_rng in
        if pe_save_raises env then log_event PushFailed st
        else
          let st1 = log_event (RecordSaved r)
                      (st\<lparr>push_records := save_push_record (push_records st) (pe_now env) r\<rparr>)
          in case pe_notifier_available env of
               Available \<Rightarrow>
                 (case pe_send env of
                    SendRaises \<Rightarrow>
                      log_event PushFailed
                        (log_event (SendAttempt (pr_message_content r) SendRaises) st1)
                  | outcome \<Rightarrow> log_event (SendAttempt (pr_message_content r) outcome) st1)
             | Unavailable \<Rightarrow> log_event NotifierUnavailable st1
             | AvailabilityRaises \<Rightarrow> log_event PushFailed st1)"

definition check_price_condition ::
  "(msg_type \<Rightarrow> push_env) \<Rightarrow> monitor_state \<Rightarrow> recommendation \<Rightarrow> real \<Rightarrow> monitor_state" where
  "check_price_condition penv st rec current_price =
     foldl (\<lambda>s (ty, trade_rng). trigger_push (penv ty) s rec ty current_price trade_rng)
       st (price_triggers rec current_price)"

subsection \<open>\<open>run_once\<close>: one tick of the monitor\<close>

definition is_trading_time :: "datetime \<Rightarrow> bool" where
  "is_trading_time now = (9 * 3600 \<le> time_of_day now \<and> time_of_day now \<le> 15 * 3600)"

text \<open>
  \<open>get_realtime_quote\<close> returns a quote, returns nothing, or raises; the last two skip
  the instrument for this tick.
\<close>

datatype quote_outcome = Quote real | NoQuote | QuoteRaises

record tick_env =
  tick_now :: datetime
  tick_recommendations :: "recommendation list"
  tick_quote :: "string \<Rightarrow> quote_outcome"
  tick_push_env :: "string \<Rightarrow> msg_type \<Rightarrow> push_env"

definition monitor_one :: "tick_env \<Rightarrow> monitor_state \<Rightarrow> recommendation \<Rightarrow> monitor_state" where
  "monitor_one env st rec =
     (case tick_quote env (stock_code rec) of
        QuoteRaises \<Rightarrow> st
      | NoQuote \<Rightarrow> st
      | Quote price \<Rightarrow> check_price_condition (tick_push_env env (stock_code rec)) st rec price)"

definition run_once :: "tick_env \<Rightarrow> monitor_state \<Rightarrow> monitor_state" where
  "run_once env st =
     (if \<not> is_trading_time (tick_now env) then st
      else if tick_recommendations env = [] then st
      else foldl (monitor_one env) st (tick_recommendations env))"

text \<open>Any number of ticks, one after the other, as the scheduler runs them.\<close>

definition run_ticks :: "tick_env list \<Rightarrow> monitor_state \<Rightarrow> monitor_state" where
  "run_ticks envs st = foldl (\<lambda>s env. run_once env s) st envs"

definition at_most_one_per_day :: "push_message_record list \<Rightarrow> bool" where
  "at_most_one_per_day db = distinct (map record_key db)"

text \<open>The events that one call of \<open>_trigger_push\<close> adds.\<close>

definition new_events ::
  "push_env \<Rightarrow> monitor_state \<Rightarrow> recommendation \<Rightarrow> msg_type \<Rightarrow> real \<Rightarrow> trade_range
     \<Rightarrow> event list" where
  "new_events env st rec ty current_price trade_rng =
     drop (length (events st)) (events (trigger_push env st rec ty current_price trade_rng))"

section \<open>api.py: the guard against duplicate analysis tasks\<close>

text \<open>
  \<open>_perform_single_stock_analysis_task\<close> runs on background worker threads. It touches
  the shared set \<open>ANALYSIS_IN_PROGRESS\<close> only inside \<open>with ANALYSIS_LOCK\<close>, so each of
  the two locked regions is one atomic step, and a run of several threads is an
  interleaving of such steps. A thread is at one of these places:
  \<^item> \<open>Start\<close>: before the first locked region (test and insert);
  \<^item> \<open>Running\<close>: inside \<open>try\<close>, the key is in the set;
  \<^item> \<open>Finishing\<close>: the body has ended, with the way it ended, and \<open>finally\<close> is
    about to run the second locked region (remove);
  \<^item> \<open>Done\<close>: the function has returned or let an exception go.
\<close>

datatype body_outcome =
    Succeeded
  | NoResult
  | RaisedException
  | RaisedBaseException

datatype task_exit =
    Rejected
  | Ran body_outcome
  | RemoveKeyError

datatype pc = Start | Running | Finishing body_outcome | Done task_exit

record task_thread =
  th_key :: string
  th_pc :: pc

record guard_state =
  in_progress :: "string set"
  threads :: "task_thread list"

fun holding :: "pc \<Rightarrow> bool" where
  "holding Running = True"
| "holding (Finishing _) = True"
| "holding _ = False"

text \<open>
  One atomic step of thread \<open>t\<close>. The outcome \<open>out\<close> is what the body does if this
  step is the end of the body; \<open>set.remove\<close> raises \<open>KeyError\<close> on a key that is not
  in the set.
\<close>

definition set_pc :: "nat \<Rightarrow> pc \<Rightarrow> guard_state \<Rightarrow> guard_state" where
  "set_pc t p st = st\<lparr>threads := (threads st)[t := (threads st ! t)\<lparr>th_pc := p\<rparr>]\<rparr>"

definition kof :: "guard_state \<Rightarrow> nat \<Rightarrow> string" where
  "kof st t = th_key (threads st ! t)"

definition pc_of :: "guard_state \<Rightarrow> nat \<Rightarrow> pc" where
  "pc_of st t = th_pc (threads st ! t)"

definition guard_step :: "nat \<times> body_outcome \<Rightarrow> guard_state \<Rightarrow> guard_state" where
  "guard_step sch st =
     (let t = fst sch; out = snd sch in
      if t \<ge> length (threads st) then st
      else
        case pc_of st t of
          Start \<Rightarrow>
            if kof st t \<in> in_progress st
            then set_pc t (Done Rejected) st
            else set_pc t Running (st\<lparr>in_progress := insert (kof st t) (in_progress st)\<rparr>)
        | Running \<Rightarrow> set_pc t (Finishing out) st
        | Finishing b \<Rightarrow>
            if kof st t \<in> in_progress st
            then set_pc t (Done (Ran b)) (st\<lparr>in_progress := in_progress st - {kof st t}\<rparr>)
            else set_pc t (Done RemoveKeyError) st
        | Done _ \<Rightarrow> st)"

definition guard_run :: "(nat \<times> body_outcome) list \<Rightarrow> guard_state \<Rightarrow> guard_state" where
  "guard_run schedule st = foldl (\<lambda>s sch. guard_step sch s) st schedule"

text \<open>The module is loaded with an empty set; every task starts at \<open>Start\<close>.\<close>

definition guard_init :: "string list \<Rightarrow> guard_state" where
  "guard_init keys = \<lparr>in_progress = {}, threads = map (\<lambda>k. \<lparr>th_key = k, th_pc = Start\<rparr>) keys\<rparr>"

text \<open>
  One task run from its call to its return with no other thread stepping in between: the
  three steps of a task that acquires the key (a rejected task has returned after the
  first, and the other two change nothing).
\<close>

definition run_task_alone :: "nat \<Rightarrow> body_outcome \<Rightarrow> guard_state \<Rightarrow> guard_state" where
  "run_task_alone t out st = guard_run [(t, out), (t, out), (t, out)] st"

text \<open>
  The threads that hold a key: they have inserted it and not yet removed it. The
  invariant of the guard: the set holds exactly the keys of the holders, two different
  holders have different keys, and no \<open>remove\<close> has raised.
\<close>

definition hset :: "guard_state \<Rightarrow> nat set" where
  "hset st = {i. i < length (threads st) \<and> holding (pc_of st i)}"

definition guard_inv :: "guard_state \<Rightarrow> bool" where
  "guard_inv st \<longleftrightarrow>
     in_progress st = kof st ` hset st
     \<and> inj_on (kof st) (hset st)
     \<and> (\<forall>i < length (threads st). pc_of st i \<noteq> Done RemoveKeyError)"

section \<open>scanner\_cn.py: the indicator engine\<close>

text \<open>
  A Python \<open>str\<close> that may hold any text (a stock name, an industry) is the list of
  its Unicode code points; a stock code is a string of ASCII digits.
\<close>

type_synonym unicode = "nat list"

definition na_text :: unicode where
  "na_text = [78, 47, 65]"

text \<open>
  The dictionaries that \<open>is_strong_stock\<close> builds have Chinese keys. \<open>key\<close> names them
  in the order of the source: the keys of the result record first, then the two keys that
  only the negative marker has (the date, and the flag that the stock did not qualify).
\<close>

datatype key =
    K_code | K_name
  | K_week_52_range | K_week_52_high | K_pct_from_high | K_week_52_low | K_pct_from_low
  | K_list_date | K_close_price | K_market_cap | K_industry
  | K_MA5 | K_MA10 | K_MA20 | K_MACD | K_MACD_DEA
  | K_vol_ratio | K_increase_20d | K_met_conditions | K_condition_details
  | K_date | K_not_qualified

text \<open>The six named conditions, in the order in which the source enters them.\<close>

datatype cond = ShortTrend | MidTrend | PriceStrength | MACDSignal | VolumeCond | RelativeStrength

text \<open>
  The values of these dictionaries. A formatted text is kept as the values it is formatted
  from: \<open>VPercent x\<close> is \<open>f"{x}%"\<close>, \<open>VFraction m n\<close> is \<open>f"{m}/{n}"\<close>,
  \<open>VDetails cs\<close> is the names of \<open>cs\<close> joined by a bar, \<open>VDate d\<close> is
  \<open>strftime('%Y-%m-%d')\<close> of a time on day \<open>d\<close>, and the three \<open>VCap\<close> are the three
  ways the market value is displayed.
\<close>

datatype pyval =
    VStr string
  | VText unicode
  | VNum real
  | VBool bool
  | VDate nat
  | VPercent real
  | VFraction nat nat
  | VDetails "cond list"
  | VCapHundredMillions0 real
  | VCapHundredMillions2 real
  | VCapYuan real

type_synonym pydict = "(key \<times> pyval) list"

definition dict_get :: "pydict \<Rightarrow> key \<Rightarrow> pyval \<Rightarrow> pyval" where
  "dict_get d k dflt = (case map_of d k of None \<Rightarrow> dflt | Some v \<Rightarrow> v)"

text \<open>
  \<open>round(x, n)\<close> on real numbers (a float that lies exactly between two neighbours is
  the one case where Python may choose the other neighbour).
\<close>

definition round_to :: "nat \<Rightarrow> real \<Rightarrow> real" where
  "round_to n x = of_int (round (x * 10 ^ n)) / 10 ^ n"

subsection \<open>The cache of per-symbol results\<close>

text \<open>
  \<open>get_args\<close> returns constants: no ticker cache, no test limit, no clearing of
  the cache, the data cache in use, all markets.
\<close>

definition USE_DATA_CACHE :: bool where
  "USE_DATA_CACHE = True"

definition TEST_LIMIT :: nat where
  "TEST_LIMIT = 0"

record cache_entry =
  cache_time :: datetime
  stock_data :: pydict

type_synonym cache = "string \<rightharpoonup> cache_entry"

definition load_cached_stock_data :: "cache \<Rightarrow> datetime \<Rightarrow> string \<Rightarrow> pydict option" where
  "load_cached_stock_data c now symbol =
     (case c symbol of
        None \<Rightarrow> None
      | Some e \<Rightarrow> if now < cache_time e + 86400 then Some (stock_data e) else None)"

definition save_stock_data_to_cache :: "cache \<Rightarrow> datetime \<Rightarrow> string \<Rightarrow> pydict \<Rightarrow> cache" where
  "save_stock_data_to_cache c now symbol data =
     c(symbol \<mapsto> \<lparr>cache_time = now, stock_data = data\<rparr>)"

subsection \<open>What the data provider returns\<close>

record stock_info =
  market_cap :: "real option"
  industry :: unicode
  list_date :: unicode
  fifty_two_week_high :: real
  fifty_two_week_low :: real

text \<open>
  The last row of the price history after pandas has added the indicator columns
  (\<open>rolling(n).mean()\<close>, \<open>ewm(span=n).mean()\<close>, \<open>pct_change(20)\<close>). A field is
  \<open>None\<close> where the column is missing or its value is NaN. \<open>l_date\<close> is the date
  column; the source reads it into \<open>date_str\<close>, which it then does not use.
\<close>

record latest_row =
  l_MA5 :: "real option"
  l_MA10 :: "real option"
  l_MA20 :: "real option"
  l_close :: "real option"
  l_MACD_diff :: "real option"
  l_MACD_dea :: "real option"
  l_volume :: "real option"
  l_VolMA5 :: "real option"
  l_RS_20d :: "real option"
  l_date :: "nat option"

text \<open>
  What \<open>fetch_stock_history_cn\<close> and the indicator computation give for a symbol:
  \<^item> \<open>HistRaises d\<close>: the provider raised; \<open>d\<close> tells whether the message names a
    delisting, in which case the symbol is written to the delisted file;
  \<^item> \<open>HistNone\<close>: no frame or an empty frame;
  \<^item> \<open>HistFrame n row\<close>: a frame of \<open>n\<close> rows with last row \<open>row\<close>;
  \<^item> \<open>HistBroken d\<close>: a frame on which computing the indicators raises; \<open>d\<close> tells
    whether the message matches the keywords of the \<open>except\<close> branch of
    \<open>is_strong_stock\<close>.
\<close>

datatype history =
    HistRaises bool
  | HistNone
  | HistFrame nat latest_row
  | HistBroken bool

record scan_env =
  env_clock :: "nat \<Rightarrow> datetime"
  env_info :: "string \<Rightarrow> stock_info"
  env_hist :: "string \<Rightarrow> history"

record scan_state =
  st_cache :: cache
  st_delisted_file :: "string list"

text \<open>
  The delisted file, as its stripped lines. \<open>load_delisted_stocks\<close> keeps the lines that
  are not empty and do not start with the comment sign.
\<close>

definition load_delisted_stocks :: "scan_state \<Rightarrow> string set" where
  "load_delisted_stocks st =
     set (filter (\<lambda>symbol. symbol \<noteq> [] \<and> hd symbol \<noteq> CHR ''#'') (st_delisted_file st))"

definition save_delisted_stock :: "string \<Rightarrow> scan_state \<Rightarrow> scan_state" where
  "save_delisted_stock symbol st =
     (let existing = load_delisted_stocks st
      in if symbol \<notin> existing
         then st\<lparr>st_delisted_file := st_delisted_file st @ [symbol]\<rparr>
         else st)"

subsection \<open>The pre-filters\<close>

text \<open>Lines 640 to 654: each pre-filter, true when it makes the function return \<open>None\<close>.\<close>

definition market_cap_rejects :: "real option \<Rightarrow> bool" where
  "market_cap_rejects mc = (if truthy mc then the mc > 1000000000000 else False)"

definition week_52_range_pct :: "real \<Rightarrow> real \<Rightarrow> real" where
  "week_52_range_pct high low =
     (if low > 0 \<and> high > 0 then ((high - low) / low) * 100 else 0)"

definition week_52_rejects :: "real \<Rightarrow> real \<Rightarrow> bool" where
  "week_52_rejects high low =
     (if low > 0 \<and> high > 0 then week_52_range_pct high low < 250 else False)"

subsection \<open>The six conditions\<close>

definition required_fields :: "latest_row \<Rightarrow> real option list" where
  "required_fields row =
     [l_MA5 row, l_MA10 row, l_MA20 row, l_close row, l_MACD_diff row, l_MACD_dea row,
      l_volume row, l_VolMA5 row]"

text \<open>
  Lines 697 to 709: the dictionary \<open>conditions\<close>. The sixth entry exists only when
  the 20-day return is a number.
\<close>

definition conditions :: "latest_row \<Rightarrow> (cond \<times> bool) list" where
  "conditions row =
     (let ma5_val = the (l_MA5 row); ma10_val = the (l_MA10 row); ma20_val = the (l_MA20 row);
          close_val = the (l_close row); macd_val = the (l_MACD_diff row);
          dea_val = the (l_MACD_dea row); vol_val = the (l_volume row);
          vol_ma5_val = the (l_VolMA5 row)
      in [(ShortTrend, ma5_val > ma10_val),
          (MidTrend, ma10_val > ma20_val),
          (PriceStrength, close_val > ma5_val),
          (MACDSignal, macd_val > dea_val \<and> macd_val > 0),
          (VolumeCond, vol_val > vol_ma5_val * 0.5)]
         @ (case l_RS_20d row of
              None \<Rightarrow> []
            | Some rs \<Rightarrow> [(RelativeStrength, rs > 0.15)]))"

definition rs_20d_float :: "latest_row \<Rightarrow> real" where
  "rs_20d_float row = (case l_RS_20d row of None \<Rightarrow> 0 | Some rs \<Rightarrow> rs)"

definition met_conditions :: "latest_row \<Rightarrow> nat" where
  "met_conditions row = length (filter snd (conditions row))"

definition total_conditions :: "latest_row \<Rightarrow> nat" where
  "total_conditions row = length (conditions row)"

definition all_six_met :: "latest_row \<Rightarrow> bool" where
  "all_six_met row \<longleftrightarrow> met_conditions row = total_conditions row \<and> total_conditions row = 6"

subsection \<open>\<open>is_strong_stock\<close>\<close>

definition market_cap_display :: "real option \<Rightarrow> pyval" where
  "market_cap_display mc =
     (if truthy mc then
        (if the mc \<ge> 100000000000 then VCapHundredMillions0 (the mc / 100000000)
         else if the mc \<ge> 100000000 then VCapHundredMillions2 (the mc / 100000000)
         else VCapYuan (the mc))
      else VStr ''N/A'')"

text \<open>Lines 730 to 759: the record of a strong stock.\<close>

definition build_result :: "string \<Rightarrow> unicode \<Rightarrow> stock_info \<Rightarrow> latest_row \<Rightarrow> pydict" where
  "build_result symbol name info row =
     (let high = fifty_two_week_high info; low = fifty_two_week_low info;
          range_pct = week_52_range_pct high low;
          close_val = the (l_close row);
          vol_val = the (l_volume row); vol_ma5_val = the (l_VolMA5 row);
          pct_from_high = (if high > 0 then ((close_val - high) / high) * 100 else 0);
          pct_from_low = (if low > 0 then ((close_val - low) / low) * 100 else 0)
      in [(K_code, VStr symbol),
          (K_name, VText name),
          (K_week_52_range,
             if range_pct > 0 then VPercent (round_to 2 range_pct) else VStr ''N/A''),
          (K_week_52_high, if high > 0 then VNum (round_to 2 high) else VStr ''N/A''),
          (K_pct_from_high,
             if high > 0 then VPercent (round_to 2 pct_from_high) else VStr ''N/A''),
          (K_week_52_low, if low > 0 then VNum (round_to 2 low) else VStr ''N/A''),
          (K_pct_from_low,
             if low > 0 then VPercent (round_to 2 pct_from_low) else VStr ''N/A''),
          (K_list_date, VText (list_date info)),
          (K_close_price, VNum (round_to 2 close_val)),
          (K_market_cap, market_cap_display (market_cap info)),
          (K_industry, VText (industry info)),
          (K_MA5, VNum (round_to 2 (the (l_MA5 row)))),
          (K_MA10, VNum (round_to 2 (the (l_MA10 row)))),
          (K_MA20, VNum (round_to 2 (the (l_MA20 row)))),
          (K_MACD, VNum (round_to 4 (the (l_MACD_diff row)))),
          (K_MACD_DEA, VNum (round_to 4 (the (l_MACD_dea row)))),
          (K_vol_ratio,
             VNum (if vol_ma5_val > 0 then round_to 2 (vol_val / vol_ma5_val) else 0)),
          (K_increase_20d, VNum (round_to 2 (rs_20d_float row * 100))),
          (K_met_conditions, VFraction (met_conditions row) (total_conditions row)),
          (K_condition_details, VDetails (map fst (filter snd (conditions row))))])"

text \<open>Lines 766 to 772: the negative marker.\<close>

definition negative_result :: "string \<Rightarrow> unicode \<Rightarrow> datetime \<Rightarrow> latest_row \<Rightarrow> pydict" where
  "negative_result symbol name now row =
     [(K_code, VStr symbol),
      (K_name, VText name),
      (K_date, VDate (date_of now)),
      (K_not_qualified, VBool True),
      (K_met_conditions, VFraction (met_conditions row) (total_conditions row))]"

text \<open>
  Lines 623 to 630: the cached dictionary that is returned as the result of the call, if
  any. A dictionary is true in a condition when it is not empty.
\<close>

definition cache_hit :: "cache \<Rightarrow> datetime \<Rightarrow> string \<Rightarrow> pydict option" where
  "cache_hit c now symbol =
     (if USE_DATA_CACHE then
        (case load_cached_stock_data c now symbol of
           None \<Rightarrow> None
         | Some cached_result \<Rightarrow>
             if cached_result \<noteq> []
                \<and> dict_get cached_result K_date (VStr []) = VDate (date_of now)
             then Some cached_result else None)
      else None)"

text \<open>Lines 659 to 774: the decision on a frame, with the cache after it.\<close>

definition classify ::
  "datetime \<Rightarrow> stock_info \<Rightarrow> nat \<Rightarrow> latest_row \<Rightarrow> scan_state \<Rightarrow> string \<Rightarrow> unicode
     \<Rightarrow> pydict option \<times> scan_state" where
  "classify now info n row st symbol name =
     (if n < 25 then (None, st)
      else if None \<in> set (required_fields row) then (None, st)
      else if all_six_met row then
        (let result = build_result symbol name info row
         in (Some result,
             if USE_DATA_CACHE
             then st\<lparr>st_cache := save_stock_data_to_cache (st_cache st) now symbol result\<rparr>
             else st))
      else
        (None,
         if USE_DATA_CACHE
         then st\<lparr>st_cache := save_stock_data_to_cache (st_cache st) now symbol
                                 (negative_result symbol name now row)\<rparr>
         else st))"

text \<open>
  \<open>is_strong_stock(symbol, name, delisted_stocks)\<close>. The result \<open>None\<close> of the source
  is \<open>None\<close>, a returned dictionary \<open>d\<close> is \<open>Some d\<close>. The clock, the stock
  information and the history of the symbol are what the calls inside the function
  return.
\<close>

definition is_strong_stock ::
  "datetime \<Rightarrow> stock_info \<Rightarrow> history \<Rightarrow> scan_state \<Rightarrow> string \<Rightarrow> unicode \<Rightarrow> string set option
     \<Rightarrow> pydict option \<times> scan_state" where
  "is_strong_stock now info hist st symbol name delisted_stocks =
     (if (case delisted_stocks of None \<Rightarrow> False | Some ds \<Rightarrow> ds \<noteq> {} \<and> symbol \<in> ds)
      then (None, st)
      else
        case cache_hit (st_cache st) now symbol of
          Some cached_result \<Rightarrow> (Some cached_result, st)
        | None \<Rightarrow>
            if market_cap_rejects (market_cap info) then (None, st)
            else if week_52_rejects (fifty_two_week_high info) (fifty_two_week_low info)
            then (None, st)
            else
              (case hist of
                 HistRaises d \<Rightarrow> (None, if d then save_delisted_stock symbol st else st)
               | HistNone \<Rightarrow> (None, st)
               | HistFrame n row \<Rightarrow> classify now info n row st symbol name
               | HistBroken d \<Rightarrow>
                   (None,
                    if d \<and> delisted_stocks \<noteq> None then save_delisted_stock symbol st else st)))"

text \<open>
  The strength rule in the words of the spec (section 4.3), on the eight indicator values
  and the 20-day return.
\<close>

definition spec_six_conditions ::
  "real \<Rightarrow> real \<Rightarrow> real \<Rightarrow> real \<Rightarrow> real \<Rightarrow> real \<Rightarrow> real \<Rightarrow> real \<Rightarrow> real \<Rightarrow> bool" where
  "spec_six_conditions ma5 ma10 ma20 close_v macd_diff macd_signal volume vol_ma5 return_20d \<longleftrightarrow>
     ma5 > ma10 \<and> ma10 > ma20 \<and> close_v > ma5 \<and> (macd_diff > macd_signal \<and> macd_diff > 0)
     \<and> volume > 0.5 * vol_ma5 \<and> return_20d > 0.15"

subsection \<open>\<open>scan_market\<close>: the loop over the universe\<close>

text \<open>\<open>str.zfill\<close> on a string of digits.\<close>

definition zfill :: "nat \<Rightarrow> string \<Rightarrow> string" where
  "zfill n s = replicate (n - length s) (CHR ''0'') @ s"

text \<open>The key function of both sorts: \<open>x.get(k, 0)\<close> for the key of the 20-day return.\<close>

definition sort_key_fn :: "pydict \<Rightarrow> real" where
  "sort_key_fn x = (case dict_get x K_increase_20d (VNum 0) of VNum r \<Rightarrow> r | _ \<Rightarrow> 0)"

text \<open>
  \<open>log_strong_stock\<close> and the log line after it read six keys with \<open>[]\<close>, which raises
  \<open>KeyError\<close> on a dictionary without the key; everything else they do cannot raise.
  The value is whether they return.
\<close>

definition log_strong_stock :: "pydict \<Rightarrow> bool" where
  "log_strong_stock stock_info_d =
     (\<forall>k \<in> set [K_code, K_name, K_close_price, K_increase_20d, K_met_conditions,
                 K_condition_details]. map_of stock_info_d k \<noteq> None)"

record scan_acc =
  results :: "pydict list"
  skipped :: "(string \<times> unicode) list"
  sc_state :: scan_state

text \<open>
  One iteration of the loop of lines 872 to 905, for the \<open>idx\<close>-th pair. Python's
  \<open>list.sort\<close> is stable, as is \<open>sort_key\<close>.
\<close>

definition scan_step ::
  "scan_env \<Rightarrow> string set \<Rightarrow> scan_acc \<Rightarrow> nat \<times> string \<times> unicode \<Rightarrow> scan_acc" where
  "scan_step env delisted_stocks acc item =
     (let idx = fst item; code_str = zfill 6 (fst (snd item)); name_str = snd (snd item);
          call = is_strong_stock (env_clock env idx) (env_info env code_str)
                   (env_hist env code_str) (sc_state acc) code_str name_str
                   (Some delisted_stocks);
          acc1 = acc\<lparr>sc_state := snd call\<rparr>
      in case fst call of
           None \<Rightarrow> acc1
         | Some res \<Rightarrow>
             if res = [] then acc1
             else
               let acc2 = acc1\<lparr>results := sort_key sort_key_fn (results acc1 @ [res])\<rparr>
               in if log_strong_stock res then acc2
                  else acc2\<lparr>skipped := skipped acc2 @ [(code_str, name_str)]\<rparr>)"

definition scan_loop ::
  "scan_env \<Rightarrow> string set \<Rightarrow> scan_state \<Rightarrow> (string \<times> unicode) list \<Rightarrow> scan_acc" where
  "scan_loop env delisted_stocks st codes =
     foldl (scan_step env delisted_stocks)
       \<lparr>results = [], skipped = [], sc_state = st\<rparr>
       (zip [1 ..< Suc (length codes)] codes)"

text \<open>
  \<open>scan_market\<close> up to the data frame it returns: the delisted symbols are removed
  from the codes, the test limit is applied, the loop runs, and the results are sorted
  once more. The rows of the frame are the sorted results, in that order; they are what
  is exported and handed to \<open>save_strong_stocks_to_db\<close>.
\<close>

definition scan_codes :: "scan_state \<Rightarrow> (string \<times> unicode) list \<Rightarrow> (string \<times> unicode) list" where
  "scan_codes st codes =
     (let delisted_stocks = load_delisted_stocks st;
          codes1 = (if delisted_stocks \<noteq> {}
                    then filter (\<lambda>(code, name). code \<notin> delisted_stocks) codes else codes)
      in if TEST_LIMIT > 0 then take TEST_LIMIT codes1 else codes1)"

definition scan_market :: "scan_env \<Rightarrow> scan_state \<Rightarrow> (string \<times> unicode) list \<Rightarrow> pydict list" where
  "scan_market env st codes =
     sort_key sort_key_fn
       (results (scan_loop env (load_delisted_stocks st) st (scan_codes st codes)))"

text \<open>The five 52-week fields of a result record, in the order of the record.\<close>

definition week_52_fields :: "pydict \<Rightarrow> pyval list" where
  "week_52_fields d =
     map (\<lambda>k. dict_get d k (VStr []))
       [K_week_52_range, K_week_52_high, K_pct_from_high, K_week_52_low, K_pct_from_low]"

section \<open>scanner\_cn.py: persisting the strong stocks\<close>

text \<open>
  \<open>StrongStock\<close> is a table with the primary key \<open>id\<close> (an integer that the database
  assigns on insertion) and the unique constraint
  \<open>UniqueConstraint('scan_time', 'stock_code')\<close>; \<open>stock_code\<close> and \<open>stock_name\<close>
  are declared \<open>nullable=False\<close>. An instance is a row to be; its \<open>id\<close> is \<open>None\<close>
  until it is inserted. \<open>ss_columns\<close> are the eighteen remaining columns with their
  values, a missing value being \<open>None\<close>.
\<close>

record strong_stock =
  ss_id :: "nat option"
  ss_scan_time :: datetime
  ss_stock_code :: "pyval option"
  ss_stock_name :: "pyval option"
  ss_columns :: "(key \<times> pyval option) list"

type_synonym strong_stocks_table = "strong_stock list"

definition value_columns :: "key list" where
  "value_columns =
     [K_close_price, K_market_cap, K_industry, K_list_date, K_MA5, K_MA10, K_MA20, K_MACD,
      K_MACD_DEA, K_vol_ratio, K_increase_20d, K_week_52_range, K_week_52_high,
      K_pct_from_high, K_week_52_low, K_pct_from_low, K_met_conditions,
      K_condition_details]"

text \<open>
  The columns of the data frame built from the list of result dictionaries are the keys of
  all of them; \<open>row[k]\<close> raises \<open>KeyError\<close> for a key that is no column, and is a
  missing value in a row whose dictionary has no such key.
\<close>

definition df_columns :: "pydict list \<Rightarrow> key set" where
  "df_columns df = (\<Union>row \<in> set df. fst ` set row)"

definition column_value :: "pydict \<Rightarrow> key \<Rightarrow> pyval option" where
  "column_value row k =
     (if k = K_week_52_high \<or> k = K_week_52_low
      then (case map_of row k of
              None \<Rightarrow> None
            | Some v \<Rightarrow> if v \<noteq> VStr ''N/A'' then Some v else None)
      else map_of row k)"

text \<open>Lines 803 to 825: the instance for one row, with \<open>scan_time=datetime.now()\<close>.\<close>

definition strong_stock_of_row :: "datetime \<Rightarrow> pydict \<Rightarrow> strong_stock" where
  "strong_stock_of_row now row =
     \<lparr>ss_id = None,
      ss_scan_time = now,
      ss_stock_code = map_of row K_code,
      ss_stock_name = map_of row K_name,
      ss_columns = map (\<lambda>k. (k, column_value row k)) value_columns\<rparr>"

text \<open>
  \<open>session.merge(stock)\<close> reconciles the instance with the row of the same primary
  key. The instances built here have no primary key (\<open>id\<close> is never set), so each
  merge adds a new pending row, which the flush of \<open>session.commit()\<close> inserts. The
  database refuses an insertion that violates \<open>nullable=False\<close> or the unique constraint
  on \<open>(scan_time, stock_code)\<close>; the refusal is an exception.
\<close>

definition fresh_id :: "strong_stocks_table \<Rightarrow> nat" where
  "fresh_id tbl = Suc (foldr max (map (\<lambda>r. case ss_id r of None \<Rightarrow> 0 | Some i \<Rightarrow> i) tbl) 0)"

definition unique_key :: "strong_stock \<Rightarrow> datetime \<times> pyval option" where
  "unique_key r = (ss_scan_time r, ss_stock_code r)"

definition insert_stock :: "strong_stocks_table \<Rightarrow> strong_stock \<Rightarrow> strong_stocks_table option" where
  "insert_stock tbl s =
     (if ss_stock_code s = None \<or> ss_stock_name s = None then None
      else if unique_key s \<in> unique_key ` set tbl then None
      else Some (tbl @ [s\<lparr>ss_id := Some (fresh_id tbl)\<rparr>]))"

fun insert_all :: "strong_stocks_table \<Rightarrow> strong_stock list \<Rightarrow> strong_stocks_table option" where
  "insert_all tbl [] = Some tbl"
| "insert_all tbl (s # ss) =
     (case insert_stock tbl s of
        None \<Rightarrow> None
      | Some tbl' \<Rightarrow> insert_all tbl' ss)"

text \<open>
  \<open>save_strong_stocks_to_db(df)\<close>: \<open>clock i\<close> is \<open>datetime.now()\<close> at row \<open>i\<close>. Any
  exception inside \<open>try\<close> (a missing column, a refused insertion) leads to
  \<open>session.rollback()\<close>, after which the table is what it was before the call.
\<close>

definition save_strong_stocks_to_db ::
  "(nat \<Rightarrow> datetime) \<Rightarrow> pydict list \<Rightarrow> strong_stocks_table \<Rightarrow> strong_stocks_table" where
  "save_strong_stocks_to_db clock df tbl =
     (if df = [] then tbl
      else if \<not> (set (K_code # K_name # value_columns) \<subseteq> df_columns df) then tbl
      else
        case insert_all tbl (map (\<lambda>(i, row). strong_stock_of_row (clock i) row)
                               (zip [0 ..< length df] df)) of
          None \<Rightarrow> tbl
        | Some tbl' \<Rightarrow> tbl')"

definition unique_rows :: "strong_stocks_table \<Rightarrow> bool" where
  "unique_rows tbl = distinct (map unique_key tbl)"

text \<open>The close prices of the rows of the table, in the order of the rows.\<close>

definition close_prices :: "strong_stocks_table \<Rightarrow> pyval option list" where
  "close_prices tbl =
     map (\<lambda>r. case map_of (ss_columns r) K_close_price of None \<Rightarrow> None | Some v \<Rightarrow> v) tbl"

section \<open>scanner\_cn.py: the universe provider\<close>

text \<open>
  \<open>get_stocks_batch_tencent\<close> asks the quote server for the codes in batches of 100.
  A request raises, or returns a status code and the lines of the body. A line that has
  the two separators and at least four fields is \<open>Fields name code price\<close>, with the
  stripped name and code and with the price if \<open>float\<close> accepts the price text; any
  other line, and a line on which splitting raises, is \<open>Junk\<close>.
\<close>

datatype quote_line = Junk | Fields unicode string "real option"

datatype response = RequestRaises | Response nat "quote_line list"

type_synonym network = "string \<Rightarrow> string list \<Rightarrow> response"

fun valid_of_line :: "quote_line \<Rightarrow> (string \<times> unicode) list" where
  "valid_of_line Junk = []"
| "valid_of_line (Fields name code price) =
     (if name \<noteq> [] \<and> code \<noteq> [] \<and> length code = 6 then
        (case price of
           None \<Rightarrow> []
         | Some p \<Rightarrow> if p > 0 then [(code, name)] else [])
      else [])"

fun valid_of_response :: "response \<Rightarrow> (string \<times> unicode) list" where
  "valid_of_response RequestRaises = []"
| "valid_of_response (Response status_code body) =
     (if status_code = 200 then concat (map valid_of_line body) else [])"

text \<open>
  The loop \<open>for i in range(0, len(codes), batch_size)\<close> with
  \<open>batch = codes[i:i + batch_size]\<close>.
\<close>

function get_stocks_batch :: "network \<Rightarrow> nat \<Rightarrow> string list \<Rightarrow> string \<Rightarrow> (string \<times> unicode) list"
  where
  "get_stocks_batch net batch_size codes market_prefix =
     (if batch_size = 0 \<or> codes = [] then []
      else valid_of_response (net market_prefix (take batch_size codes))
             @ get_stocks_batch net batch_size (drop batch_size codes) market_prefix)"
  by pat_completeness auto
termination
  by (relation "measure (\<lambda>(net, batch_size, codes, market_prefix). length codes)") auto

declare get_stocks_batch.simps [simp del]

definition get_stocks_batch_tencent :: "network \<Rightarrow> string list \<Rightarrow> string \<Rightarrow> (string \<times> unicode) list"
  where
  "get_stocks_batch_tencent net codes market_prefix = get_stocks_batch net 100 codes market_prefix"

text \<open>\<open>str(i).zfill(6)\<close> for a natural number.\<close>

fun str_nat :: "nat \<Rightarrow> string" where
  "str_nat n =
     (if n < 10 then [char_of (48 + n)] else str_nat (n div 10) @ [char_of (48 + n mod 10)])"

declare str_nat.simps [simp del]

definition code_range :: "nat \<Rightarrow> nat \<Rightarrow> string list" where
  "code_range lo hi = map (\<lambda>i. zfill 6 (str_nat i)) [lo ..< hi]"

definition sh_codes :: "string list" where
  "sh_codes = code_range 600000 606000 @ code_range 688000 689500"

definition sz_codes :: "string list" where
  "sz_codes = code_range 1 3500 @ code_range 300000 302000"

text \<open>
  \<open>list(dict.fromkeys(xs))\<close>: the keys are entered one after the other, and a key that
  is already there keeps its place.
\<close>

definition dict_fromkeys :: "'a list \<Rightarrow> 'a list" where
  "dict_fromkeys xs = foldl (\<lambda>acc x. if x \<in> set acc then acc else acc @ [x]) [] xs"

text \<open>
  The embedded list of \<open>get_builtin_cn_stocks\<close>: 128 pairs of a code and a name, the
  names as their code points.
\<close>

definition get_builtin_cn_stocks :: "(string \<times> unicode) list" where
  "get_builtin_cn_stocks =
     [(''600000'', [28006, 21457, 38134, 34892]), (''600016'', [27665, 29983, 38134, 34892]),
      (''600028'', [20013, 22269, 30707, 21270]), (''600030'', [20013, 20449, 35777, 21048]),
      (''600036'', [25307, 21830, 38134, 34892]), (''600048'', [20445, 21033, 21457, 23637]),
      (''600050'', [20013, 22269, 32852, 36890]), (''600104'', [19978, 27773, 38598, 22242]),
      (''600111'', [21271, 26041, 31232, 22303]), (''600276'', [24658, 29790, 21307, 33647]),
      (''600309'', [19975, 21326, 21270, 23398]), (''600519'', [36149, 24030, 33541, 21488]),
      (''600585'', [28023, 34746, 27700, 27877]), (''600690'', [28023, 23572, 26234, 23478]),
      (''600809'', [23665, 35199, 27774, 37202]), (''600887'', [20234, 21033, 32929, 20221]),
      (''600900'', [38271, 27743, 30005, 21147]), (''601012'', [38534, 22522, 32511, 33021]),
      (''601088'', [20013, 22269, 31070, 21326]), (''601166'', [20852, 19994, 38134, 34892]),
      (''601318'', [20013, 22269, 24179, 23433]), (''601398'', [24037, 21830, 38134, 34892]),
      (''601628'', [20013, 22269, 20154, 23551]), (''601668'', [20013, 22269, 24314, 31569]),
      (''601888'', [20013, 22269, 20013, 20813]), (''601899'', [32043, 37329, 30719, 19994]),
      (''603259'', [33647, 26126, 24247, 24503]), (''603288'', [28023, 22825, 21619, 19994]),
      (''603501'', [38886, 23572, 32929, 20221]), (''000001'', [24179, 23433, 38134, 34892]),
      (''000002'', [19975, 31185, 65]), (''000063'', [20013, 20852, 36890, 35759]),
      (''000100'', [84, 67, 76, 31185, 25216]), (''000157'', [20013, 32852, 37325, 31185]),
      (''000333'', [32654, 30340, 38598, 22242]), (''000338'', [28493, 26612, 21160, 21147]),
      (''000425'', [24464, 24037, 26426, 26800]), (''000538'', [20113, 21335, 30333, 33647]),
      (''000568'', [27896, 24030, 32769, 31382]), (''000625'', [38271, 23433, 27773, 36710]),
      (''000651'', [26684, 21147, 30005, 22120]), (''000661'', [38271, 26149, 39640, 26032]),
      (''000725'', [20140, 19996, 26041, 65]), (''000776'', [24191, 21457, 35777, 21048]),
      (''000858'', [20116, 31918, 28082]), (''000895'', [21452, 27719, 21457, 23637]),
      (''000938'', [32043, 20809, 32929, 20221]), (''002001'', [26032, 21644, 25104]),
      (''002007'', [21326, 20848, 29983, 29289]), (''002027'', [20998, 20247, 20256, 23186]),
      (''002049'', [32043, 20809, 22269, 24494]), (''002050'', [19977, 33457, 26234, 25511]),
      (''002120'', [38901, 36798, 32929, 20221]), (''002142'', [23425, 27874, 38134, 34892]),
      (''002230'', [31185, 22823, 35759, 39134]), (''002236'', [22823, 21326, 32929, 20221]),
      (''002241'', [27468, 23572, 32929, 20221]), (''002271'', [19996, 26041, 38632, 34425]),
      (''002304'', [27915, 27827, 32929, 20221]), (''002352'', [39034, 20016, 25511, 32929]),
      (''002410'', [24191, 32852, 36798]), (''002415'', [28023, 24247, 23041, 35270]),
      (''002460'', [36195, 38155, 38146, 19994]), (''002475'', [31435, 35759, 31934, 23494]),
      (''002594'', [27604, 20122, 36842]), (''002714'', [29287, 21407, 32929, 20221]),
      (''002812'', [24681, 25463, 32929, 20221]), (''002916'', [28145, 21335, 30005, 36335]),
      (''300003'', [20048, 26222, 21307, 30103]), (''300014'', [20159, 32428, 38146, 33021]),
      (''300015'', [29233, 23572, 30524, 31185]), (''300033'', [21516, 33457, 39034]),
      (''300059'', [19996, 26041, 36130, 23500]), (''300122'', [26234, 39134, 29983, 29289]),
      (''300124'', [27719, 24029, 25216, 26415]), (''300142'', [27779, 26862, 29983, 29289]),
      (''300146'', [27748, 33251, 20493, 20581]), (''300347'', [27888, 26684, 21307, 33647]),
      (''300408'', [19977, 29615, 38598, 22242]), (''300413'', [33426, 26524, 36229, 23186]),
      (''300433'', [34013, 24605, 31185, 25216]), (''300450'', [20808, 23548, 26234, 33021]),
      (''300454'', [28145, 20449, 26381]), (''300496'', [20013, 31185, 21019, 36798]),
      (''300498'', [28201, 27663, 32929, 20221]), (''300529'', [20581, 24070, 29983, 29289]),
      (''300558'', [36125, 36798, 33647, 19994]), (''300595'', [27431, 26222, 24247, 35270]),
      (''300601'', [24247, 27888, 29983, 29289]), (''300628'', [20159, 32852, 32593, 32476]),
      (''300661'', [22307, 37030, 32929, 20221]), (''300750'', [23425, 24503, 26102, 20195]),
      (''300760'', [36808, 29790, 21307, 30103]), (''300782'', [21331, 32988, 24494]),
      (''300888'', [31283, 20581, 21307, 30103]), (''300896'', [29233, 32654, 23458]),
      (''688005'', [23481, 30334, 31185, 25216]), (''688009'', [20013, 22269, 36890, 21495]),
      (''688012'', [20013, 24494, 20844, 21496]), (''688036'', [20256, 38899, 25511, 32929]),
      (''688111'', [37329, 23665, 21150, 20844]), (''688126'', [27818, 30789, 20135, 19994]),
      (''688169'', [30707, 22836, 31185, 25216]), (''688180'', [21531, 23454, 29983, 29289]),
      (''688187'', [26102, 20195, 30005, 27668]), (''688188'', [26575, 26970, 30005, 23376]),
      (''688200'', [21326, 23792, 27979, 25511]), (''688208'', [36947, 36890, 31185, 25216]),
      (''688256'', [23506, 27494, 32426]), (''688269'', [20975, 22240, 31185, 25216]),
      (''688271'', [32852, 24433, 21307, 30103]), (''688303'', [22823, 20840, 33021, 28304]),
      (''688363'', [21326, 29081, 29983, 29289]), (''688396'', [21326, 28070, 24494]),
      (''688516'', [22885, 29305, 32500]), (''688520'', [31070, 24030, 32454, 32990]),
      (''688536'', [24605, 29790, 28006]), (''688561'', [22855, 23433, 20449]),
      (''688599'', [22825, 21512, 20809, 33021]), (''688617'', [24800, 27888, 21307, 30103]),
      (''688658'', [24742, 24247, 33647, 19994]), (''688679'', [36890, 28304, 29615, 22659]),
      (''688696'', [26497, 31859, 31185, 25216]), (''688728'', [26684, 31185, 24494]),
      (''688772'', [29664, 28023, 20896, 23431]), (''688798'', [33406, 20026, 30005, 23376]),
      (''688799'', [21326, 32435, 33647, 21378]), (''688819'', [22825, 33021, 32929, 20221])]"

definition live_stocks :: "network \<Rightarrow> (string \<times> unicode) list" where
  "live_stocks net =
     get_stocks_batch_tencent net sh_codes ''sh'' @ get_stocks_batch_tencent net sz_codes ''sz''"

definition fetch_all_cn_stocks :: "network \<Rightarrow> (string \<times> unicode) list" where
  "fetch_all_cn_stocks net =
     (let all_stocks = live_stocks net
      in if all_stocks \<noteq> [] then dict_fromkeys all_stocks else get_builtin_cn_stocks)"

section \<open>Concrete inputs of the scenarios\<close>

text \<open>
  Two recommendations: one whose buy and take-profit bands start at 0, and one with three
  ordinary bands.
\<close>

definition zero_floor_rec :: recommendation where
  "zero_floor_rec =
     \<lparr>stock_code = ''600519'', stock_name = ''Moutai'', sector = None,
      buy_price_min = Some 0, buy_price_max = Some 12,
      take_profit_price_min = Some 0, take_profit_price_max = Some 20,
      stop_loss_price_min = None, stop_loss_price_max = None\<rparr>"

definition band_rec :: recommendation where
  "band_rec =
     \<lparr>stock_code = ''600519'', stock_name = ''Moutai'', sector = Some ''liquor'',
      buy_price_min = Some 10, buy_price_max = Some 12,
      take_profit_price_min = Some 20, take_profit_price_max = Some 25,
      stop_loss_price_min = Some 8, stop_loss_price_max = Some 9\<rparr>"

text \<open>
  Scenario D of the spec: two ticks of the same day, at 10:00 and at 10:05, both see the
  price 21, which is above the take-profit floor 20. In the second tick \<open>send\<close> raises.
\<close>

definition tick_a :: tick_env where
  "tick_a =
     \<lparr>tick_now = 36000,
      tick_recommendations = [band_rec],
      tick_quote = (\<lambda>_. Quote 21),
      tick_push_env = (\<lambda>_ _. \<lparr>pe_now = 36001, pe_save_raises = False,
                                 pe_notifier_available = Available, pe_send = Delivered\<rparr>)\<rparr>"

definition tick_b :: tick_env where
  "tick_b =
     \<lparr>tick_now = 36300,
      tick_recommendations = [band_rec],
      tick_quote = (\<lambda>_. Quote 21),
      tick_push_env = (\<lambda>_ _. \<lparr>pe_now = 36301, pe_save_raises = False,
                                 pe_notifier_available = Available, pe_send = SendRaises\<rparr>)\<rparr>"

definition empty_monitor :: monitor_state where
  "empty_monitor = \<lparr>push_records = [], events = []\<rparr>"

definition raising_env :: push_env where
  "raising_env =
     \<lparr>pe_now = 36301, pe_save_raises = False, pe_notifier_available = Available,
      pe_send = SendRaises\<rparr>"

text \<open>
  Four analysis tasks: three for the same stock code, as when a redelivered event
  triggers the same analysis again, and one for another code.
\<close>

definition four_tasks :: guard_state where
  "four_tasks = guard_init [''600519'', ''600519'', ''600519'', ''000001'']"

text \<open>
  Scenarios A and B of the spec: MA5 = 10.2, MA10 = 10.0, MA20 = 9.8, close 10.5, MACD
  difference 0.3 over signal 0.1, 20-day return 18 percent, and a volume of 120 percent
  (A) or 40 percent (B) of its five-day mean. The stock has a market value of 50 billion
  and a 52-week range from 8 to 30; \<open>mega_cap_info\<close> is the same stock with a market value
  of two trillion, \<open>unknown_info\<close> the same stock when the provider gives neither.
\<close>

definition scenario_row_a :: latest_row where
  "scenario_row_a =
     \<lparr>l_MA5 = Some 10.2, l_MA10 = Some 10.0, l_MA20 = Some 9.8, l_close = Some 10.5,
      l_MACD_diff = Some 0.3, l_MACD_dea = Some 0.1, l_volume = Some 1200,
      l_VolMA5 = Some 1000, l_RS_20d = Some 0.18, l_date = Some 19000\<rparr>"

definition scenario_row_b :: latest_row where
  "scenario_row_b = scenario_row_a\<lparr>l_volume := Some 400\<rparr>"

definition scenario_info :: stock_info where
  "scenario_info =
     \<lparr>market_cap = Some 50000000000, industry = na_text, list_date = na_text,
      fifty_two_week_high = 30, fifty_two_week_low = 8\<rparr>"

definition mega_cap_info :: stock_info where
  "mega_cap_info = scenario_info\<lparr>market_cap := Some 2000000000000\<rparr>"

definition unknown_info :: stock_info where
  "unknown_info =
     \<lparr>market_cap = None, industry = na_text, list_date = na_text,
      fifty_two_week_high = 0, fifty_two_week_low = 0\<rparr>"

definition empty_scan :: scan_state where
  "empty_scan = \<lparr>st_cache = Map.empty, st_delisted_file = []\<rparr>"

text \<open>A name of two code points, and a day that starts at second 1641600000.\<close>

definition some_name :: unicode where
  "some_name = [24179, 23433]"

definition morning :: datetime where
  "morning = 1641600000 + 36000"

definition noon :: datetime where
  "noon = 1641600000 + 43200"

definition scenario_env :: "latest_row \<Rightarrow> datetime \<Rightarrow> scan_env" where
  "scenario_env row now =
     \<lparr>env_clock = (\<lambda>_. now), env_info = (\<lambda>_. scenario_info),
      env_hist = (\<lambda>_. HistFrame 30 row)\<rparr>"

text \<open>
  The stock of scenario B is scanned in the morning and found weak; \<open>after_first\<close> is the
  state that this first call leaves, \<open>weak_marker\<close> the negative marker it caches.
\<close>

definition weak_marker :: pydict where
  "weak_marker = negative_result ''600519'' some_name morning scenario_row_b"

definition after_first :: scan_state where
  "after_first =
     snd (is_strong_stock morning scenario_info (HistFrame 30 scenario_row_b) empty_scan
            ''600519'' some_name (Some {}))"

text \<open>
  Two strong stocks scanned in this order: one with a 20-day return of 30 percent, then
  the stock of scenario A with 18 percent.
\<close>

definition two_strong_env :: scan_env where
  "two_strong_env =
     \<lparr>env_clock = (\<lambda>_. morning), env_info = (\<lambda>_. scenario_info),
      env_hist = (\<lambda>symbol. if symbol = ''000001''
                             then HistFrame 30 (scenario_row_a\<lparr>l_RS_20d := Some 0.3\<rparr>)
                             else HistFrame 30 scenario_row_a)\<rparr>"

text \<open>
  Two networks: one on which every request raises, and one that answers every request
  with the same two lines for one stock.
\<close>

definition dead_network :: network where
  "dead_network = (\<lambda>market_prefix batch. RequestRaises)"

definition echo_network :: network where
  "echo_network =
     (\<lambda>market_prefix batch.
        Response 200 [Fields some_name ''600000'' (Some 9.5), Fields some_name ''600000'' (Some 9.5)])"

text \<open>
  Two scans of the stock of scenario A are persisted with the same time stamp: the first
  with the close 10.5, the second with the close 11.
\<close>

definition first_frame :: "pydict list" where
  "first_frame = [build_result ''600519'' some_name scenario_info scenario_row_a]"

definition second_frame :: "pydict list" where
  "second_frame =
     [build_result ''600519'' some_name scenario_info (scenario_row_a\<lparr>l_close := Some 11\<rparr>)]"

section \<open>Shared lemmas\<close>

text \<open>A property that every step of a loop preserves holds after the loop.\<close>

lemma foldl_preserves:
  assumes "\<And>s x. P s \<Longrightarrow> P (f s x)" and "P s"
  shows "P (foldl f s xs)"
  using assms(2) by (induction xs arbitrary: s) (simp_all add: assms(1))

section \<open>Properties of the price monitor\<close>

lemmas trigger_defs =
  triggers_def price_triggers_def buy_trigger_def take_profit_trigger_def
  stop_loss_trigger_def

subsection \<open>C5: take profit\<close>

text \<open>
  C5, as stated, fails: a take-profit band whose floor is 0.0 is present, the price 5 is
  at or above the floor, and no take-profit push is triggered, because the guard
  \<open>if rec.take_profit_price_min and rec.take_profit_price_max\<close> treats the number 0
  as absent.
\<close>

theorem take_profit_zero_floor_counterexample:
  "take_profit_price_min zero_floor_rec = Some 0
   \<and> take_profit_price_max zero_floor_rec = Some 20
   \<and> (5::real) \<ge> 0
   \<and> \<not> triggers zero_floor_rec 5 MSG_TYPE_TAKE_PROFIT"
  by (simp add: zero_floor_rec_def trigger_defs)

text \<open>
  C5, amended: for a recommendation whose two take-profit bounds are present and not
  zero, the take-profit push is triggered exactly when the price is at or above
  \<open>take_profit_price_min\<close>; the upper bound is not compared with the price, so a price
  above the band triggers too.
\<close>

theorem take_profit_triggers_iff:
  assumes "take_profit_price_min rec = Some lo" and "take_profit_price_max rec = Some hi"
    and "lo \<noteq> 0" and "hi \<noteq> 0"
  shows "(triggers rec current_price MSG_TYPE_TAKE_PROFIT \<longleftrightarrow> current_price \<ge> lo)
         \<and> (current_price > hi \<and> hi \<ge> lo \<longrightarrow> triggers rec current_price MSG_TYPE_TAKE_PROFIT)"
  using assms by (auto simp: trigger_defs)

theorem take_profit_triggers_iff_witness:
  "take_profit_price_min band_rec = Some 20 \<and> take_profit_price_max band_rec = Some 25
   \<and> triggers band_rec 20 MSG_TYPE_TAKE_PROFIT
   \<and> triggers band_rec 30 MSG_TYPE_TAKE_PROFIT
   \<and> \<not> triggers band_rec 19 MSG_TYPE_TAKE_PROFIT"
proof -
  have lo: "take_profit_price_min band_rec = Some 20"
    and hi: "take_profit_price_max band_rec = Some 25"
    by (simp_all add: band_rec_def)
  have nz: "(20::real) \<noteq> 0" "(25::real) \<noteq> 0" by simp_all
  show ?thesis
    using lo hi
      take_profit_triggers_iff [OF lo hi nz, of 20]
      take_profit_triggers_iff [OF lo hi nz, of 30]
      take_profit_triggers_iff [OF lo hi nz, of 19]
    by simp
qed

subsection \<open>C6: buy\<close>

text \<open>
  C6, as stated, fails: both buy bounds are present, the price lies between them, and no
  buy push is triggered, because the lower bound is 0.0 and the guard
  \<open>if rec.buy_price_min and rec.buy_price_max\<close> treats the number 0 as absent.
\<close>

theorem buy_zero_bound_counterexample:
  "buy_price_min zero_floor_rec = Some 0
   \<and> buy_price_max zero_floor_rec = Some 12
   \<and> (0::real) \<le> 5 \<and> (5::real) \<le> 12
   \<and> \<not> triggers zero_floor_rec 5 MSG_TYPE_BUY"
  by (simp add: zero_floor_rec_def trigger_defs)

text \<open>
  C6, amended: for a recommendation whose two buy bounds are present and not zero, the
  buy push is triggered exactly when \<open>buy_price_min \<le> price \<le> buy_price_max\<close>, both
  ends included; in particular a price equal to \<open>buy_price_min\<close> triggers (the band
  being a band, \<open>buy_price_min \<le> buy_price_max\<close>).
\<close>

theorem buy_triggers_iff:
  assumes "buy_price_min rec = Some lo" and "buy_price_max rec = Some hi"
    and "lo \<noteq> 0" and "hi \<noteq> 0"
  shows "(triggers rec current_price MSG_TYPE_BUY \<longleftrightarrow> lo \<le> current_price \<and> current_price \<le> hi)
         \<and> (lo \<le> hi \<longrightarrow> triggers rec lo MSG_TYPE_BUY \<and> triggers rec hi MSG_TYPE_BUY)"
  using assms by (auto simp: trigger_defs)

theorem buy_triggers_iff_witness:
  "buy_price_min band_rec = Some 10 \<and> buy_price_max band_rec = Some 12
   \<and> triggers band_rec 10 MSG_TYPE_BUY
   \<and> triggers band_rec 12 MSG_TYPE_BUY
   \<and> \<not> triggers band_rec 13 MSG_TYPE_BUY"
proof -
  have lo: "buy_price_min band_rec = Some 10"
    and hi: "buy_price_max band_rec = Some 12"
    by (simp_all add: band_rec_def)
  have nz: "(10::real) \<noteq> 0" "(12::real) \<noteq> 0" by simp_all
  show ?thesis
    using lo hi buy_triggers_iff [OF lo hi nz, of 13]
    by simp
qed

subsection \<open>C4: at most one push record per stock, message type and day\<close>

lemma map_record_key_save:
  "map record_key (save_push_record db now r) =
     map record_key db @ [(pr_stock_code r, pr_message_type r, date_of now)]"
  by (simp add: save_push_record_def record_key_def)

lemma save_build_record:
  "save_push_record db now (build_record now rec ty p rg) = db @ [build_record now rec ty p rg]"
  by (simp add: save_push_record_def build_record_def)

lemma trigger_push_at_most_one:
  assumes "at_most_one_per_day (push_records st)"
  shows "at_most_one_per_day (push_records (trigger_push env st rec ty p rg))"
proof (cases "has_pushed_today (push_records st) (pe_now env) (stock_code rec) ty")
  case True
  then show ?thesis
    using assms by (simp add: trigger_push_def log_event_def)
next
  case False
  then have fresh: "(stock_code rec, ty, date_of (pe_now env)) \<notin> set (map record_key (push_records st))"
    by (simp add: has_pushed_today_def)
  show ?thesis
  proof (cases "pe_save_raises env")
    case True
    then show ?thesis
      using assms False by (simp add: trigger_push_def log_event_def)
  next
    case no_raise: False
    have "push_records (trigger_push env st rec ty p rg)
            = save_push_record (push_records st) (pe_now env) (build_record (pe_now env) rec ty p rg)"
      using False no_raise
      by (simp add: trigger_push_def log_event_def Let_def
            split: send_outcome.splits availability.splits)
    moreover have "distinct (map record_key
        (save_push_record (push_records st) (pe_now env) (build_record (pe_now env) rec ty p rg)))"
      using assms fresh
      by (simp add: map_record_key_save at_most_one_per_day_def build_record_def)
    ultimately show ?thesis
      by (simp add: at_most_one_per_day_def)
  qed
qed

lemma check_price_condition_at_most_one:
  assumes "at_most_one_per_day (push_records st)"
  shows "at_most_one_per_day (push_records (check_price_condition penv st rec p))"
  unfolding check_price_condition_def
  by (rule foldl_preserves [where P = "\<lambda>s. at_most_one_per_day (push_records s)"])
     (auto simp: trigger_push_at_most_one assms)

lemma monitor_one_at_most_one:
  assumes "at_most_one_per_day (push_records st)"
  shows "at_most_one_per_day (push_records (monitor_one env st rec))"
  using assms
  by (simp add: monitor_one_def check_price_condition_at_most_one split: quote_outcome.splits)

lemma run_once_at_most_one:
  assumes "at_most_one_per_day (push_records st)"
  shows "at_most_one_per_day (push_records (run_once env st))"
proof -
  have "at_most_one_per_day (push_records (foldl (monitor_one env) st (tick_recommendations env)))"
    by (rule foldl_preserves [where P = "\<lambda>s. at_most_one_per_day (push_records s)"])
       (simp_all add: monitor_one_at_most_one assms)
  then show ?thesis
    using assms by (simp add: run_once_def)
qed

lemma run_ticks_at_most_one:
  assumes "at_most_one_per_day (push_records st)"
  shows "at_most_one_per_day (push_records (run_ticks envs st))"
  unfolding run_ticks_def
  by (rule foldl_preserves [where P = "\<lambda>s. at_most_one_per_day (push_records s)"])
     (simp_all add: run_once_at_most_one assms)

lemma trigger_push_persists:
  assumes "\<not> has_pushed_today (push_records st) (pe_now env) (stock_code rec) ty"
    and "\<not> pe_save_raises env"
  shows "push_records (trigger_push env st rec ty p rg)
           = push_records st @ [build_record (pe_now env) rec ty p rg]"
  using assms
  by (simp add: trigger_push_def log_event_def Let_def save_build_record
           split: send_outcome.splits availability.splits)

lemma send_follows_save:
  assumes "SendAttempt c out \<in> set (new_events env st rec ty p rg)"
  shows "\<exists>r rest. new_events env st rec ty p rg = RecordSaved r # SendAttempt c out # rest
            \<and> r \<in> set (push_records (trigger_push env st rec ty p rg))"
  using assms
  by (auto simp: trigger_push_def new_events_def log_event_def Let_def save_build_record
           split: send_outcome.splits availability.splits if_splits)

text \<open>
  C4. Starting from a store with at most one push record per (stock code, message type,
  day), any number of monitor ticks, whatever prices they observe, leaves a store with at
  most one record per such triple. When \<open>_trigger_push\<close> fires (no record of today for
  the triple, and saving does not raise), the record is in the store whatever the
  notification service then does: unavailable, delivering, refusing or raising. Every
  attempt to send is preceded, in the same call, by the saving of the record, which is in
  the store after the call.
\<close>

theorem push_record_at_most_once:
  assumes "at_most_one_per_day (push_records st)"
  shows "at_most_one_per_day (push_records (run_ticks envs st))
    \<and> (\<not> has_pushed_today (push_records st) (pe_now env) (stock_code rec) ty
         \<and> \<not> pe_save_raises env
       \<longrightarrow> push_records (trigger_push env st rec ty p rg)
             = push_records st @ [build_record (pe_now env) rec ty p rg])
    \<and> (\<forall>c out. SendAttempt c out \<in> set (new_events env st rec ty p rg)
         \<longrightarrow> (\<exists>r rest. new_events env st rec ty p rg = RecordSaved r # SendAttempt c out # rest
                \<and> r \<in> set (push_records (trigger_push env st rec ty p rg))))"
  using run_ticks_at_most_one [OF assms] trigger_push_persists send_follows_save
  by blast

lemmas monitor_eval =
  run_ticks_def run_once_def tick_a_def tick_b_def empty_monitor_def is_trading_time_def
  time_of_day_def monitor_one_def check_price_condition_def band_rec_def trigger_defs
  trigger_push_def has_pushed_today_def log_event_def Let_def save_push_record_def
  record_key_def date_of_def build_record_def raising_env_def new_events_def
  at_most_one_per_day_def

theorem push_record_at_most_once_witness:
  "at_most_one_per_day (push_records empty_monitor)
   \<and> at_most_one_per_day (push_records (run_ticks [tick_a, tick_b] empty_monitor))
   \<and> length (push_records (run_ticks [tick_a, tick_b] empty_monitor)) = 1
   \<and> push_records (trigger_push raising_env empty_monitor band_rec MSG_TYPE_TAKE_PROFIT 21 (20, 25))
       = [build_record 36301 band_rec MSG_TYPE_TAKE_PROFIT 21 (20, 25)]"
proof -
  have inv: "at_most_one_per_day (push_records empty_monitor)"
    by (simp add: empty_monitor_def at_most_one_per_day_def)
  have fresh: "\<not> has_pushed_today (push_records empty_monitor) (pe_now raising_env)
                  (stock_code band_rec) MSG_TYPE_TAKE_PROFIT"
    by (simp add: empty_monitor_def has_pushed_today_def)
  have saves: "\<not> pe_save_raises raising_env"
    by (simp add: raising_env_def)
  have once: "length (push_records (run_ticks [tick_a, tick_b] empty_monitor)) = 1"
    by (simp add: monitor_eval)
  show ?thesis
    using inv fresh saves once
      push_record_at_most_once [OF inv, of "[tick_a, tick_b]" raising_env band_rec
        MSG_TYPE_TAKE_PROFIT 21 "(20, 25)"]
    by (simp add: empty_monitor_def raising_env_def)
qed

text \<open>
  Scenario D of the spec: two ticks of the same day both see a price above the
  take-profit floor. The first saves the record and sends once; the second is suppressed.
\<close>

lemma scenario_d_one_record_one_send:
  "events (run_ticks [tick_a, tick_b] empty_monitor)
     = [RecordSaved (build_record 36001 band_rec MSG_TYPE_TAKE_PROFIT 21 (20, 25)),
        SendAttempt (pr_message_content (build_record 36001 band_rec MSG_TYPE_TAKE_PROFIT 21 (20, 25)))
          Delivered,
        SkipAlreadyPushed ''600519'' MSG_TYPE_TAKE_PROFIT]"
  by (simp add: monitor_eval)

section \<open>Properties of the task guard (C7)\<close>

lemma hset_set_pc:
  assumes "t < length (threads st)"
  shows "hset (set_pc t p st) = (if holding p then insert t (hset st) else hset st - {t})"
  using assms by (auto simp: hset_def set_pc_def pc_of_def nth_list_update)

lemma kof_set_pc: "kof (set_pc t p st) = kof st"
proof
  fix i show "kof (set_pc t p st) i = kof st i"
    by (cases "i = t"; cases "t < length (threads st)") (simp_all add: kof_def set_pc_def not_less list_update_beyond)
qed

lemma len_set_pc: "length (threads (set_pc t p st)) = length (threads st)"
  by (simp add: set_pc_def)

lemma inprog_set_pc: "in_progress (set_pc t p st) = in_progress st"
  by (simp add: set_pc_def)

lemma pc_set_pc: "i < length (threads st) \<Longrightarrow> pc_of (set_pc t p st) i = (if i = t then p else pc_of st i)"
  by (cases "i = t") (simp_all add: set_pc_def pc_of_def)

lemma hset_inprog_upd: "hset (st\<lparr>in_progress := S\<rparr>) = hset st"
  by (simp add: hset_def pc_of_def)

lemma kof_inprog_upd: "kof (st\<lparr>in_progress := S\<rparr>) = kof st"
  by (simp add: kof_def fun_eq_iff)

lemma pc_inprog_upd: "pc_of (st\<lparr>in_progress := S\<rparr>) = pc_of st"
  by (simp add: pc_of_def fun_eq_iff)

lemmas guard_simps = hset_set_pc kof_set_pc len_set_pc inprog_set_pc pc_set_pc
  hset_inprog_upd kof_inprog_upd pc_inprog_upd

lemma t_in_hset: "t < length (threads st) \<Longrightarrow> t \<in> hset st \<longleftrightarrow> holding (pc_of st t)"
  by (simp add: hset_def)

lemma guard_step_inv:
  assumes inv: "guard_inv st"
  shows "guard_inv (guard_step sch st)"
proof (cases "fst sch \<ge> length (threads st)")
  case True then show ?thesis using inv by (simp add: guard_step_def Let_def)
next
  case False
  define t where "t = fst sch"
  have t: "t < length (threads st)" using False by (simp add: t_def)
  from inv have S: "in_progress st = kof st ` hset st" and I: "inj_on (kof st) (hset st)"
    and E: "\<forall>i < length (threads st). pc_of st i \<noteq> Done RemoveKeyError"
    by (simp_all add: guard_inv_def)
  show ?thesis
  proof (cases "pc_of st t")
    case Start
    then have nh: "t \<notin> hset st" using t by (simp add: t_in_hset)
    show ?thesis
    proof (cases "kof st t \<in> in_progress st")
      case True
      then have "guard_step sch st = set_pc t (Done Rejected) st"
        using t Start by (simp add: guard_step_def t_def Let_def)
      moreover have "guard_inv (set_pc t (Done Rejected) st)"
        using S I E nh t by (simp add: guard_inv_def guard_simps)
      ultimately show ?thesis by simp
    next
      case notin: False
      then have "guard_step sch st = set_pc t Running (st\<lparr>in_progress := insert (kof st t) (in_progress st)\<rparr>)"
        using t Start by (simp add: guard_step_def t_def Let_def)
      moreover have "guard_inv (set_pc t Running (st\<lparr>in_progress := insert (kof st t) (in_progress st)\<rparr>))"
        using S I E nh t notin by (simp add: guard_inv_def guard_simps)
      ultimately show ?thesis by simp
    qed
  next
    case Running
    then have h: "t \<in> hset st" using t by (simp add: t_in_hset)
    have "guard_step sch st = set_pc t (Finishing (snd sch)) st"
      using t Running by (simp add: guard_step_def t_def Let_def)
    moreover have "guard_inv (set_pc t (Finishing (snd sch)) st)"
      using S I E h t Running by (simp add: guard_inv_def guard_simps insert_absorb)
    ultimately show ?thesis by simp
  next
    case (Finishing b)
    then have h: "t \<in> hset st" using t by (simp add: t_in_hset)
    then have kin: "kof st t \<in> in_progress st" using S by simp
    have "guard_step sch st = set_pc t (Done (Ran b)) (st\<lparr>in_progress := in_progress st - {kof st t}\<rparr>)"
      using t Finishing kin by (simp add: guard_step_def t_def Let_def)
    moreover have "kof st ` (hset st - {t}) = kof st ` hset st - {kof st t}"
      using I h by (auto simp: inj_on_def)
    moreover have "inj_on (kof st) (hset st - {t})"
      using I by (rule inj_on_subset) auto
    ultimately show ?thesis
      using S E t by (simp add: guard_inv_def guard_simps)
  next
    case (Done e)
    then show ?thesis using inv t by (simp add: guard_step_def t_def Let_def)
  qed
qed

lemma hset_init: "hset (guard_init keys) = {}"
  by (auto simp: hset_def pc_of_def guard_init_def)

lemma guard_init_inv: "guard_inv (guard_init keys)"
  by (simp add: guard_inv_def hset_init) (simp add: guard_init_def pc_of_def)

lemma guard_run_inv: "guard_inv st \<Longrightarrow> guard_inv (guard_run sched st)"
  unfolding guard_run_def
  by (rule foldl_preserves [where P = guard_inv]) (simp_all add: guard_step_inv)

lemma guard_step_kof: "kof (guard_step sch st) = kof st"
  by (simp add: guard_step_def Let_def guard_simps split: pc.splits)

lemma guard_step_length: "length (threads (guard_step sch st)) = length (threads st)"
  by (simp add: guard_step_def Let_def guard_simps split: pc.splits)

lemma guard_step_other:
  assumes "i \<noteq> fst sch" "i < length (threads st)"
  shows "pc_of (guard_step sch st) i = pc_of st i"
  using assms by (simp add: guard_step_def Let_def guard_simps split: pc.splits)

lemma guard_step_start:
  assumes "t < length (threads st)" "pc_of st t = Start"
  shows "pc_of (guard_step (t, out) st) t = (if kof st t \<in> in_progress st then Done Rejected else Running)"
    and "in_progress (guard_step (t, out) st) = insert (kof st t) (in_progress st)"
  using assms by (auto simp add: guard_step_def Let_def guard_simps)

lemma guard_step_running:
  assumes "t < length (threads st)" "pc_of st t = Running"
  shows "pc_of (guard_step (t, out) st) t = Finishing out"
    and "in_progress (guard_step (t, out) st) = in_progress st"
  using assms by (simp_all add: guard_step_def Let_def guard_simps)

lemma guard_step_finishing:
  assumes "guard_inv st" "t < length (threads st)" "pc_of st t = Finishing b"
  shows "pc_of (guard_step (t, out) st) t = Done (Ran b)"
    and "in_progress (guard_step (t, out) st) = in_progress st - {kof st t}"
proof -
  have "t \<in> hset st" using assms by (simp add: t_in_hset)
  then have "kof st t \<in> in_progress st" using assms(1) by (simp add: guard_inv_def)
  then show "pc_of (guard_step (t, out) st) t = Done (Ran b)"
    and "in_progress (guard_step (t, out) st) = in_progress st - {kof st t}"
    using assms by (simp_all add: guard_step_def Let_def guard_simps)
qed

lemma later_acquires_rejected:
  assumes "k \<in> in_progress st" "distinct ts"
    and "\<forall>t \<in> set ts. t < length (threads st) \<and> pc_of st t = Start \<and> kof st t = k"
  shows "(\<forall>t \<in> set ts. pc_of (guard_run (map (\<lambda>t. (t, out t)) ts) st) t = Done Rejected)
       \<and> in_progress (guard_run (map (\<lambda>t. (t, out t)) ts) st) = in_progress st
       \<and> (\<forall>i. i \<notin> set ts \<and> i < length (threads st) \<longrightarrow> pc_of (guard_run (map (\<lambda>t. (t, out t)) ts) st) i = pc_of st i)"
  using assms
proof (induction ts arbitrary: st)
  case Nil
  then show ?case by (simp add: guard_run_def)
next
  case (Cons a ts)
  let ?st1 = "guard_step (a, out a) st"
  have a: "a < length (threads st)" "pc_of st a = Start" "kof st a = k" using Cons.prems by simp_all
  have pc1: "pc_of ?st1 a = Done Rejected" and in1: "in_progress ?st1 = in_progress st"
    using guard_step_start [OF a(1,2), of "out a"] a(3) Cons.prems(1) by (simp_all add: insert_absorb)
  have rest: "\<forall>t \<in> set ts. t < length (threads ?st1) \<and> pc_of ?st1 t = Start \<and> kof ?st1 t = k"
  proof
    fix t assume t: "t \<in> set ts"
    then have "t \<noteq> fst (a, out a)" using Cons.prems(2) by auto
    moreover have "t < length (threads st)" "pc_of st t = Start" "kof st t = k"
      using t Cons.prems(3) by simp_all
    ultimately show "t < length (threads ?st1) \<and> pc_of ?st1 t = Start \<and> kof ?st1 t = k"
      by (simp add: guard_step_length guard_step_kof guard_step_other)
  qed
  have k1: "k \<in> in_progress ?st1" using in1 Cons.prems(1) by simp
  have d: "distinct ts" using Cons.prems(2) by simp
  note IH = Cons.IH [OF k1 d rest]
  have run: "guard_run (map (\<lambda>t. (t, out t)) (a # ts)) st = guard_run (map (\<lambda>t. (t, out t)) ts) ?st1"
    by (simp add: guard_run_def)
  have "a \<notin> set ts" using Cons.prems(2) by simp
  then have "pc_of (guard_run (map (\<lambda>t. (t, out t)) ts) ?st1) a = Done Rejected"
    using IH a(1) pc1 by (simp add: guard_step_length)
  moreover have "\<forall>i. i \<notin> set (a # ts) \<and> i < length (threads st) \<longrightarrow>
      pc_of (guard_run (map (\<lambda>t. (t, out t)) ts) ?st1) i = pc_of st i"
    using IH by (simp add: guard_step_length guard_step_other)
  ultimately show ?case
    using IH in1 unfolding run by simp
qed

lemma first_acquire_wins:
  assumes "k \<notin> in_progress st" "distinct (a # ts)"
    and "\<forall>t \<in> set (a # ts). t < length (threads st) \<and> pc_of st t = Start \<and> kof st t = k"
  shows "pc_of (guard_run (map (\<lambda>t. (t, out t)) (a # ts)) st) a = Running
       \<and> (\<forall>t \<in> set ts. pc_of (guard_run (map (\<lambda>t. (t, out t)) (a # ts)) st) t = Done Rejected)
       \<and> k \<in> in_progress (guard_run (map (\<lambda>t. (t, out t)) (a # ts)) st)"
proof -
  let ?st1 = "guard_step (a, out a) st"
  have a: "a < length (threads st)" "pc_of st a = Start" "kof st a = k" using assms by simp_all
  have pc1: "pc_of ?st1 a = Running" and in1: "in_progress ?st1 = insert k (in_progress st)"
    using guard_step_start [OF a(1,2), of "out a"] a(3) assms(1) by simp_all
  have rest: "\<forall>t \<in> set ts. t < length (threads ?st1) \<and> pc_of ?st1 t = Start \<and> kof ?st1 t = k"
  proof
    fix t assume t: "t \<in> set ts"
    then have "t \<noteq> fst (a, out a)" using assms(2) by auto
    moreover have "t < length (threads st)" "pc_of st t = Start" "kof st t = k"
      using t assms(3) by simp_all
    ultimately show "t < length (threads ?st1) \<and> pc_of ?st1 t = Start \<and> kof ?st1 t = k"
      by (simp add: guard_step_length guard_step_kof guard_step_other)
  qed
  have k1: "k \<in> in_progress ?st1" using in1 by simp
  have d: "distinct ts" and na: "a \<notin> set ts" using assms(2) by simp_all
  note R = later_acquires_rejected [OF k1 d rest, of out]
  have run: "guard_run (map (\<lambda>t. (t, out t)) (a # ts)) st = guard_run (map (\<lambda>t. (t, out t)) ts) ?st1"
    by (simp add: guard_run_def)
  show ?thesis
    unfolding run using R na a(1) pc1 k1 by (simp add: guard_step_length)
qed

lemma run_task_alone_releases:
  assumes inv: "guard_inv st" and t: "t < length (threads st)" and s: "pc_of st t = Start"
    and free: "kof st t \<notin> in_progress st"
  shows "pc_of (run_task_alone t out st) t = Done (Ran out)
       \<and> kof st t \<notin> in_progress (run_task_alone t out st)"
proof -
  let ?s1 = "guard_step (t, out) st"
  let ?s2 = "guard_step (t, out) ?s1"
  let ?s3 = "guard_step (t, out) ?s2"
  have r1: "pc_of ?s1 t = Running"
    using guard_step_start(1) [OF t s, of out] free by simp
  have t1: "t < length (threads ?s1)" using t by (simp add: guard_step_length)
  have r2: "pc_of ?s2 t = Finishing out"
    using guard_step_running(1) [OF t1 r1] .
  have t2: "t < length (threads ?s2)" using t1 by (simp add: guard_step_length)
  have inv2: "guard_inv ?s2" using inv by (simp add: guard_step_inv)
  have r3: "pc_of ?s3 t = Done (Ran out)"
    and i3: "in_progress ?s3 = in_progress ?s2 - {kof ?s2 t}"
    using guard_step_finishing [OF inv2 t2 r2, of out] by simp_all
  have "kof ?s2 t = kof st t" by (simp add: guard_step_kof)
  then have "kof st t \<notin> in_progress ?s3" using i3 by simp
  moreover have "run_task_alone t out st = ?s3"
    by (simp add: run_task_alone_def guard_run_def)
  ultimately show ?thesis using r3 by simp
qed

lemma acquire_after_release:
  assumes inv: "guard_inv st" and t: "t < length (threads st)" and f: "pc_of st t = Finishing b"
    and t': "t' < length (threads st)" and s: "pc_of st t' = Start" and k: "kof st t' = kof st t"
  shows "pc_of (guard_step (t', out') (guard_step (t, out) st)) t' = Running"
proof -
  let ?s1 = "guard_step (t, out) st"
  have ne: "t' \<noteq> fst (t, out)" using f s by auto
  have s1: "pc_of ?s1 t' = Start" using guard_step_other [OF ne t'] s by simp
  have l1: "t' < length (threads ?s1)" using t' by (simp add: guard_step_length)
  have "in_progress ?s1 = in_progress st - {kof st t}"
    using guard_step_finishing(2) [OF inv t f] .
  then have "kof ?s1 t' \<notin> in_progress ?s1" using k by (simp add: guard_step_kof)
  then show ?thesis using guard_step_start(1) [OF l1 s1, of out'] by simp
qed

text \<open>
  C7. In every state \<open>st\<close> that the tasks can reach from the start, under any
  interleaving of their atomic steps:
  \<^item> two different tasks that hold a key hold different keys, and the in-flight set is
    exactly the set of the keys held;
  \<^item> when any number of tasks for a free key \<open>k\<close> try to acquire it one after the other,
    in any order, before any release, the first succeeds and every other one is rejected;
  \<^item> a task that tries to acquire a key in the set is rejected;
  \<^item> a task whose body ends, however it ends (result, no result, exception, or an
    exception that \<open>except Exception\<close> does not catch), goes on to \<open>finally\<close>, and its
    release removes the key from the set;
  \<^item> after that release the next task to acquire the same key succeeds.
\<close>

theorem guard_exactly_one_until_release:
  assumes reach: "st = guard_run schedule (guard_init keys)"
  shows "(\<forall>i \<in> hset st. \<forall>j \<in> hset st. kof st i = kof st j \<longrightarrow> i = j)
    \<and> (\<forall>k. k \<in> in_progress st \<longleftrightarrow> (\<exists>i \<in> hset st. kof st i = k))
    \<and> (distinct (a # ts) \<and> k \<notin> in_progress st
         \<and> (\<forall>t \<in> set (a # ts). t < length (threads st) \<and> pc_of st t = Start \<and> kof st t = k)
       \<longrightarrow> pc_of (guard_run (map (\<lambda>t. (t, out t)) (a # ts)) st) a = Running
           \<and> (\<forall>t \<in> set ts. pc_of (guard_run (map (\<lambda>t. (t, out t)) (a # ts)) st) t = Done Rejected)
           \<and> k \<in> in_progress (guard_run (map (\<lambda>t. (t, out t)) (a # ts)) st))
    \<and> (t < length (threads st) \<and> pc_of st t = Start \<and> kof st t \<in> in_progress st
       \<longrightarrow> pc_of (guard_step (t, b) st) t = Done Rejected)
    \<and> (t < length (threads st) \<and> pc_of st t = Running
       \<longrightarrow> pc_of (guard_step (t, b) st) t = Finishing b)
    \<and> (t < length (threads st) \<and> pc_of st t = Finishing b
       \<longrightarrow> pc_of (guard_step (t, b') st) t = Done (Ran b)
           \<and> kof st t \<notin> in_progress (guard_step (t, b') st))
    \<and> (t < length (threads st) \<and> pc_of st t = Finishing b
         \<and> t' < length (threads st) \<and> pc_of st t' = Start \<and> kof st t' = kof st t
       \<longrightarrow> pc_of (guard_step (t', b'') (guard_step (t, b') st)) t' = Running)
    \<and> (t < length (threads st) \<and> pc_of st t = Start \<and> kof st t \<notin> in_progress st
       \<longrightarrow> pc_of (run_task_alone t b st) t = Done (Ran b)
           \<and> kof st t \<notin> in_progress (run_task_alone t b st))"
proof -
  have inv: "guard_inv st"
    unfolding reach by (rule guard_run_inv) (rule guard_init_inv)
  then have S: "in_progress st = kof st ` hset st" and I: "inj_on (kof st) (hset st)"
    by (simp_all add: guard_inv_def)
  have c1: "\<forall>i \<in> hset st. \<forall>j \<in> hset st. kof st i = kof st j \<longrightarrow> i = j"
    using I by (auto simp: inj_on_def)
  have c2: "\<forall>k. k \<in> in_progress st \<longleftrightarrow> (\<exists>i \<in> hset st. kof st i = k)"
    using S by auto
  have c3: "distinct (a # ts) \<and> k \<notin> in_progress st
         \<and> (\<forall>t \<in> set (a # ts). t < length (threads st) \<and> pc_of st t = Start \<and> kof st t = k)
       \<longrightarrow> pc_of (guard_run (map (\<lambda>t. (t, out t)) (a # ts)) st) a = Running
           \<and> (\<forall>t \<in> set ts. pc_of (guard_run (map (\<lambda>t. (t, out t)) (a # ts)) st) t = Done Rejected)
           \<and> k \<in> in_progress (guard_run (map (\<lambda>t. (t, out t)) (a # ts)) st)"
    using first_acquire_wins [of k st a ts out] by blast
  have c4: "t < length (threads st) \<and> pc_of st t = Start \<and> kof st t \<in> in_progress st
       \<longrightarrow> pc_of (guard_step (t, b) st) t = Done Rejected"
    using guard_step_start(1) [of t st b] by simp
  have c5: "t < length (threads st) \<and> pc_of st t = Running
       \<longrightarrow> pc_of (guard_step (t, b) st) t = Finishing b"
    using guard_step_running(1) [of t st b] by simp
  have c6: "t < length (threads st) \<and> pc_of st t = Finishing b
       \<longrightarrow> pc_of (guard_step (t, b') st) t = Done (Ran b)
           \<and> kof st t \<notin> in_progress (guard_step (t, b') st)"
    using guard_step_finishing [OF inv, of t b b'] by simp
  have c7: "t < length (threads st) \<and> pc_of st t = Finishing b
         \<and> t' < length (threads st) \<and> pc_of st t' = Start \<and> kof st t' = kof st t
       \<longrightarrow> pc_of (guard_step (t', b'') (guard_step (t, b') st)) t' = Running"
    using acquire_after_release [OF inv, of t b t' b'' b'] by simp
  have c8: "t < length (threads st) \<and> pc_of st t = Start \<and> kof st t \<notin> in_progress st
       \<longrightarrow> pc_of (run_task_alone t b st) t = Done (Ran b)
           \<and> kof st t \<notin> in_progress (run_task_alone t b st)"
    using run_task_alone_releases [OF inv, of t b] by simp
  show ?thesis
    using c1 c2 c3 c4 c5 c6 c7 c8 by (intro conjI)
qed

lemmas guard_eval =
  four_tasks_def guard_init_def guard_run_def guard_step_def pc_of_def kof_def set_pc_def
  Let_def

theorem guard_exactly_one_until_release_witness:
  "pc_of (guard_run [(1, Succeeded), (0, Succeeded), (2, Succeeded)] four_tasks) 1 = Running
   \<and> pc_of (guard_run [(1, Succeeded), (0, Succeeded), (2, Succeeded)] four_tasks) 0 = Done Rejected
   \<and> pc_of (guard_run [(1, Succeeded), (0, Succeeded), (2, Succeeded)] four_tasks) 2 = Done Rejected
   \<and> pc_of (run_task_alone 3 NoResult four_tasks) 3 = Done (Ran NoResult)
   \<and> ''000001'' \<notin> in_progress (run_task_alone 3 NoResult four_tasks)
   \<and> pc_of (guard_step (0, Succeeded) (guard_run [(1, Succeeded)] four_tasks)) 0 = Done Rejected
   \<and> pc_of (guard_step (1, RaisedException) (guard_run [(1, Succeeded)] four_tasks)) 1
       = Finishing RaisedException
   \<and> pc_of (guard_step (1, Succeeded)
        (guard_run [(1, Succeeded), (1, RaisedException)] four_tasks)) 1 = Done (Ran RaisedException)
   \<and> ''600519'' \<notin> in_progress (guard_step (1, Succeeded)
        (guard_run [(1, Succeeded), (1, RaisedException)] four_tasks))
   \<and> pc_of (guard_step (2, Succeeded) (guard_step (1, Succeeded)
        (guard_run [(1, Succeeded), (1, RaisedException)] four_tasks))) 2 = Running"
proof -
  let ?s0 = "guard_run [] (guard_init [''600519'', ''600519'', ''600519'', ''000001''])"
  let ?s1 = "guard_run [(1, Succeeded)] (guard_init [''600519'', ''600519'', ''600519'', ''000001''])"
  let ?s2 = "guard_run [(1, Succeeded), (1, RaisedException)]
               (guard_init [''600519'', ''600519'', ''600519'', ''000001''])"
  have s0: "?s0 = four_tasks" by (simp add: guard_run_def four_tasks_def)
  have s1: "?s1 = guard_run [(1, Succeeded)] four_tasks" by (simp add: four_tasks_def)
  have s2: "?s2 = guard_run [(1, Succeeded), (1, RaisedException)] four_tasks"
    by (simp add: four_tasks_def)
  have h0: "distinct (1 # [0, 2 :: nat]) \<and> ''600519'' \<notin> in_progress ?s0
      \<and> (\<forall>t \<in> set (1 # [0, 2]). t < length (threads ?s0) \<and> pc_of ?s0 t = Start
            \<and> kof ?s0 t = ''600519'')"
    by (simp add: guard_eval)
  have h0': "3 < length (threads ?s0) \<and> pc_of ?s0 3 = Start \<and> kof ?s0 3 \<notin> in_progress ?s0"
    and k0: "kof ?s0 3 = ''000001''"
    by (simp_all add: guard_eval)
  have h1: "0 < length (threads ?s1) \<and> pc_of ?s1 0 = Start \<and> kof ?s1 0 \<in> in_progress ?s1"
    by (simp add: guard_eval)
  have h1': "1 < length (threads ?s1) \<and> pc_of ?s1 1 = Running"
    by (simp add: guard_eval)
  have h2: "1 < length (threads ?s2) \<and> pc_of ?s2 1 = Finishing RaisedException
      \<and> 2 < length (threads ?s2) \<and> pc_of ?s2 2 = Start \<and> kof ?s2 2 = kof ?s2 1"
    and k2: "kof ?s2 1 = ''600519''"
    by (simp_all add: guard_eval)
  note A = guard_exactly_one_until_release [OF refl,
      of "[]" "[''600519'', ''600519'', ''600519'', ''000001'']" 1 "[0, 2]" "''600519''"
         "\<lambda>_. Succeeded" 3 NoResult]
  note B = guard_exactly_one_until_release [OF refl,
      of "[(1, Succeeded)]" "[''600519'', ''600519'', ''600519'', ''000001'']" _ _ _ _ 0 Succeeded]
  note B' = guard_exactly_one_until_release [OF refl,
      of "[(1, Succeeded)]" "[''600519'', ''600519'', ''600519'', ''000001'']" _ _ _ _ 1
         RaisedException]
  note C = guard_exactly_one_until_release [OF refl,
      of "[(1, Succeeded), (1, RaisedException)]"
         "[''600519'', ''600519'', ''600519'', ''000001'']" _ _ _ _ 1 RaisedException Succeeded 2
         Succeeded]
  from A h0 have a1:
    "pc_of (guard_run (map (\<lambda>t. (t, Succeeded)) (1 # [0, 2])) ?s0) 1 = Running
     \<and> (\<forall>t \<in> set [0, 2]. pc_of (guard_run (map (\<lambda>t. (t, Succeeded)) (1 # [0, 2])) ?s0) t
           = Done Rejected)"
    by blast
  from A h0' k0 have a2:
    "pc_of (run_task_alone 3 NoResult ?s0) 3 = Done (Ran NoResult)
     \<and> ''000001'' \<notin> in_progress (run_task_alone 3 NoResult ?s0)"
    by simp
  from B h1 have b1: "pc_of (guard_step (0, Succeeded) ?s1) 0 = Done Rejected"
    by blast
  from B' h1' have b2: "pc_of (guard_step (1, RaisedException) ?s1) 1 = Finishing RaisedException"
    by blast
  from C h2 k2 have c1:
    "pc_of (guard_step (1, Succeeded) ?s2) 1 = Done (Ran RaisedException)
     \<and> ''600519'' \<notin> in_progress (guard_step (1, Succeeded) ?s2)
     \<and> pc_of (guard_step (2, Succeeded) (guard_step (1, Succeeded) ?s2)) 2 = Running"
    by simp
  show ?thesis
    using a1 a2 b1 b2 c1 unfolding s0 s1 s2 by simp
qed

section \<open>Properties of the scanner\<close>

lemmas scan_eval =
  is_strong_stock_def classify_def cache_hit_def load_cached_stock_data_def
  save_stock_data_to_cache_def USE_DATA_CACHE_def market_cap_rejects_def
  week_52_rejects_def week_52_range_pct_def required_fields_def all_six_met_def
  met_conditions_def total_conditions_def conditions_def Let_def
  scenario_row_a_def scenario_row_b_def scenario_info_def empty_scan_def

subsection \<open>C1: the six conditions\<close>

lemma all_six_met_iff:
  assumes "l_MA5 row = Some ma5" "l_MA10 row = Some ma10" "l_MA20 row = Some ma20"
    "l_close row = Some cl" "l_MACD_diff row = Some macd" "l_MACD_dea row = Some dea"
    "l_volume row = Some vol" "l_VolMA5 row = Some volma5"
  shows "all_six_met row \<longleftrightarrow>
     (\<exists>ret. l_RS_20d row = Some ret \<and> spec_six_conditions ma5 ma10 ma20 cl macd dea vol volma5 ret)"
proof (cases "l_RS_20d row")
  case None
  then show ?thesis
    by (simp add: all_six_met_def total_conditions_def conditions_def Let_def)
next
  case (Some ret)
  have len: "total_conditions row = 6"
    using Some by (simp add: total_conditions_def conditions_def Let_def)
  have "met_conditions row = 6 \<longleftrightarrow> spec_six_conditions ma5 ma10 ma20 cl macd dea vol volma5 ret"
    using assms Some
    by (simp add: met_conditions_def conditions_def Let_def spec_six_conditions_def mult.commute)
  then show ?thesis using len Some by (simp add: all_six_met_def)
qed

lemma required_present:
  assumes "l_MA5 row = Some ma5" "l_MA10 row = Some ma10" "l_MA20 row = Some ma20"
    "l_close row = Some cl" "l_MACD_diff row = Some macd" "l_MACD_dea row = Some dea"
    "l_volume row = Some vol" "l_VolMA5 row = Some volma5"
  shows "None \<notin> set (required_fields row)"
  using assms by (simp add: required_fields_def)

lemma is_strong_stock_classify:
  assumes "\<not> (case delisted_stocks of None \<Rightarrow> False | Some ds \<Rightarrow> ds \<noteq> {} \<and> symbol \<in> ds)"
    and "cache_hit (st_cache st) now symbol = None"
    and "\<not> market_cap_rejects (market_cap info)"
    and "\<not> week_52_rejects (fifty_two_week_high info) (fifty_two_week_low info)"
  shows "is_strong_stock now info (HistFrame n row) st symbol name delisted_stocks
           = classify now info n row st symbol name"
  using assms by (simp add: is_strong_stock_def)

lemma classify_strong:
  assumes "25 \<le> n" "None \<notin> set (required_fields row)"
  shows "fst (classify now info n row st symbol name)
           = (if all_six_met row then Some (build_result symbol name info row) else None)"
    and "\<not> all_six_met row \<Longrightarrow>
           st_cache (snd (classify now info n row st symbol name)) symbol
             = Some \<lparr>cache_time = now, stock_data = negative_result symbol name now row\<rparr>"
  using assms by (simp_all add: classify_def Let_def USE_DATA_CACHE_def save_stock_data_to_cache_def)

text \<open>
  C1, amended. For a frame of at least 25 rows whose last row has all the indicator values
  and the 20-day return, for a symbol that is not in the delisted set, is not answered from
  today's cache and passes the two pre-filters (market value unknown or at most one
  trillion, 52-week range unknown or at least 250 percent): the call returns the result
  record exactly when the six conditions of the spec hold, and returns \<open>None\<close> exactly
  when one of them fails, in which case the negative marker is what the cache holds for the
  symbol afterwards.
\<close>

theorem strong_iff_six_conditions:
  assumes rows: "25 \<le> n"
    and fields: "l_MA5 row = Some ma5" "l_MA10 row = Some ma10" "l_MA20 row = Some ma20"
      "l_close row = Some close_v" "l_MACD_diff row = Some macd_diff"
      "l_MACD_dea row = Some macd_signal" "l_volume row = Some volume"
      "l_VolMA5 row = Some vol_ma5" "l_RS_20d row = Some return_20d"
    and listed: "\<not> (case delisted_stocks of None \<Rightarrow> False | Some ds \<Rightarrow> ds \<noteq> {} \<and> symbol \<in> ds)"
    and miss: "cache_hit (st_cache st) now symbol = None"
    and cap: "\<not> market_cap_rejects (market_cap info)"
    and range52: "\<not> week_52_rejects (fifty_two_week_high info) (fifty_two_week_low info)"
  shows "(fst (is_strong_stock now info (HistFrame n row) st symbol name delisted_stocks)
            = Some (build_result symbol name info row)
          \<longleftrightarrow> spec_six_conditions ma5 ma10 ma20 close_v macd_diff macd_signal volume vol_ma5
                return_20d)
       \<and> (fst (is_strong_stock now info (HistFrame n row) st symbol name delisted_stocks) = None
          \<longleftrightarrow> \<not> spec_six_conditions ma5 ma10 ma20 close_v macd_diff macd_signal volume vol_ma5
                return_20d)
       \<and> (\<not> spec_six_conditions ma5 ma10 ma20 close_v macd_diff macd_signal volume vol_ma5
                return_20d
          \<longrightarrow> st_cache (snd (is_strong_stock now info (HistFrame n row) st symbol name
                  delisted_stocks)) symbol
                = Some \<lparr>cache_time = now, stock_data = negative_result symbol name now row\<rparr>)"
proof -
  have six: "all_six_met row \<longleftrightarrow>
      spec_six_conditions ma5 ma10 ma20 close_v macd_diff macd_signal volume vol_ma5 return_20d"
    using all_six_met_iff [OF fields(1-8)] fields(9) by simp
  have present: "None \<notin> set (required_fields row)"
    using required_present [OF fields(1-8)] .
  have eq: "is_strong_stock now info (HistFrame n row) st symbol name delisted_stocks
              = classify now info n row st symbol name"
    using is_strong_stock_classify [OF listed miss cap range52] .
  show ?thesis
    unfolding eq using classify_strong [OF rows present, of now info st symbol name] six
    by simp
qed

text \<open>Scenarios A and B of the spec.\<close>

theorem strong_iff_six_conditions_witness:
  "fst (is_strong_stock morning scenario_info (HistFrame 30 scenario_row_a) empty_scan
         ''600519'' some_name None)
     = Some (build_result ''600519'' some_name scenario_info scenario_row_a)
   \<and> fst (is_strong_stock morning scenario_info (HistFrame 30 scenario_row_b) empty_scan
         ''600519'' some_name None) = None"
proof -
  have A: "spec_six_conditions 10.2 10.0 9.8 10.5 0.3 0.1 1200 1000 0.18"
    and B: "\<not> spec_six_conditions 10.2 10.0 9.8 10.5 0.3 0.1 400 1000 0.18"
    by (simp_all add: spec_six_conditions_def)
  have listed: "\<not> (case None :: string set option of None \<Rightarrow> False
                     | Some ds \<Rightarrow> ds \<noteq> {} \<and> ''600519'' \<in> ds)"
    by simp
  have miss: "cache_hit (st_cache empty_scan) morning ''600519'' = None"
    by (simp add: cache_hit_def load_cached_stock_data_def empty_scan_def)
  have cap: "\<not> market_cap_rejects (market_cap scenario_info)"
    by (simp add: market_cap_rejects_def scenario_info_def)
  have range52: "\<not> week_52_rejects (fifty_two_week_high scenario_info)
                     (fifty_two_week_low scenario_info)"
    by (simp add: week_52_rejects_def week_52_range_pct_def scenario_info_def)
  have rows: "(25::nat) \<le> 30" by simp
  have fa: "l_MA5 scenario_row_a = Some 10.2" "l_MA10 scenario_row_a = Some 10.0"
    "l_MA20 scenario_row_a = Some 9.8" "l_close scenario_row_a = Some 10.5"
    "l_MACD_diff scenario_row_a = Some 0.3" "l_MACD_dea scenario_row_a = Some 0.1"
    "l_volume scenario_row_a = Some 1200" "l_VolMA5 scenario_row_a = Some 1000"
    "l_RS_20d scenario_row_a = Some 0.18"
    by (simp_all add: scenario_row_a_def)
  have fb: "l_MA5 scenario_row_b = Some 10.2" "l_MA10 scenario_row_b = Some 10.0"
    "l_MA20 scenario_row_b = Some 9.8" "l_close scenario_row_b = Some 10.5"
    "l_MACD_diff scenario_row_b = Some 0.3" "l_MACD_dea scenario_row_b = Some 0.1"
    "l_volume scenario_row_b = Some 400" "l_VolMA5 scenario_row_b = Some 1000"
    "l_RS_20d scenario_row_b = Some 0.18"
    by (simp_all add: scenario_row_a_def scenario_row_b_def)
  show ?thesis
    using A B
      strong_iff_six_conditions [OF rows fa listed miss cap range52, of some_name]
      strong_iff_six_conditions [OF rows fb listed miss cap range52, of some_name]
    by simp
qed

text \<open>
  C1, as stated, fails: the frame has 30 rows, every indicator is present and the six
  conditions hold (scenario A), and the call returns \<open>None\<close>, because the market value
  of two trillion is above the ceiling of the first pre-filter.
\<close>

theorem mega_cap_counterexample:
  "spec_six_conditions 10.2 10.0 9.8 10.5 0.3 0.1 1200 1000 0.18
   \<and> l_MA5 scenario_row_a = Some 10.2 \<and> l_MA10 scenario_row_a = Some 10.0
   \<and> l_MA20 scenario_row_a = Some 9.8 \<and> l_close scenario_row_a = Some 10.5
   \<and> l_MACD_diff scenario_row_a = Some 0.3 \<and> l_MACD_dea scenario_row_a = Some 0.1
   \<and> l_volume scenario_row_a = Some 1200 \<and> l_VolMA5 scenario_row_a = Some 1000
   \<and> l_RS_20d scenario_row_a = Some 0.18
   \<and> (25::nat) \<le> 30
   \<and> fst (is_strong_stock morning mega_cap_info (HistFrame 30 scenario_row_a) empty_scan
         ''600519'' some_name None) = None"
  by (simp add: spec_six_conditions_def scenario_row_a_def is_strong_stock_def cache_hit_def
        load_cached_stock_data_def empty_scan_def market_cap_rejects_def mega_cap_info_def
        scenario_info_def)

subsection \<open>C10: unknown market value, unknown 52-week range\<close>

lemma week_52_fields_unknown:
  assumes "fifty_two_week_high info = 0" "fifty_two_week_low info = 0"
  shows "week_52_fields (build_result symbol name info row)
         = [VStr ''N/A'', VStr ''N/A'', VStr ''N/A'', VStr ''N/A'', VStr ''N/A'']"
  using assms
  by (simp add: week_52_fields_def build_result_def Let_def dict_get_def week_52_range_pct_def)

text \<open>
  C10. A market value of \<open>None\<close> does not make the market-value pre-filter reject, and a
  52-week high or low of 0 does not make the range pre-filter reject. So a stock that
  meets the six conditions (on a frame of at least 25 rows with all indicators, not
  delisted, not answered from the cache) is returned as strong when its market value is
  unknown and the range filter passes, and when its 52-week range is unknown and the
  market-value filter passes; in the latter case the five 52-week fields of the record are
  the text N/A.
\<close>

theorem unknown_data_skips_prefilter:
  assumes rows: "25 \<le> n" and present: "None \<notin> set (required_fields row)"
    and six: "all_six_met row"
    and listed: "\<not> (case delisted_stocks of None \<Rightarrow> False | Some ds \<Rightarrow> ds \<noteq> {} \<and> symbol \<in> ds)"
    and miss: "cache_hit (st_cache st) now symbol = None"
  shows "(market_cap info = None \<longrightarrow> \<not> market_cap_rejects (market_cap info))
       \<and> (fifty_two_week_high info = 0 \<or> fifty_two_week_low info = 0
            \<longrightarrow> \<not> week_52_rejects (fifty_two_week_high info) (fifty_two_week_low info))
       \<and> (market_cap info = None
            \<and> \<not> week_52_rejects (fifty_two_week_high info) (fifty_two_week_low info)
          \<longrightarrow> fst (is_strong_stock now info (HistFrame n row) st symbol name delisted_stocks)
                = Some (build_result symbol name info row))
       \<and> (fifty_two_week_high info = 0 \<and> fifty_two_week_low info = 0
            \<and> \<not> market_cap_rejects (market_cap info)
          \<longrightarrow> fst (is_strong_stock now info (HistFrame n row) st symbol name delisted_stocks)
                = Some (build_result symbol name info row)
              \<and> week_52_fields (build_result symbol name info row)
                = [VStr ''N/A'', VStr ''N/A'', VStr ''N/A'', VStr ''N/A'', VStr ''N/A''])"
proof -
  have c1: "market_cap info = None \<longrightarrow> \<not> market_cap_rejects (market_cap info)"
    by (simp add: market_cap_rejects_def)
  have c2: "fifty_two_week_high info = 0 \<or> fifty_two_week_low info = 0
            \<longrightarrow> \<not> week_52_rejects (fifty_two_week_high info) (fifty_two_week_low info)"
    by (simp add: week_52_rejects_def)
  have strong: "fst (is_strong_stock now info (HistFrame n row) st symbol name delisted_stocks)
                  = Some (build_result symbol name info row)"
    if "\<not> market_cap_rejects (market_cap info)"
      "\<not> week_52_rejects (fifty_two_week_high info) (fifty_two_week_low info)"
    using that listed miss rows present six
    by (simp add: is_strong_stock_def classify_def Let_def)
  show ?thesis
    using c1 c2 strong week_52_fields_unknown [of info symbol name row] by blast
qed

theorem unknown_data_skips_prefilter_witness:
  "fst (is_strong_stock morning unknown_info (HistFrame 30 scenario_row_a) empty_scan
         ''600519'' some_name None)
     = Some (build_result ''600519'' some_name unknown_info scenario_row_a)
   \<and> week_52_fields (build_result ''600519'' some_name unknown_info scenario_row_a)
     = [VStr ''N/A'', VStr ''N/A'', VStr ''N/A'', VStr ''N/A'', VStr ''N/A'']"
proof -
  have rows: "(25::nat) \<le> 30" by simp
  have present: "None \<notin> set (required_fields scenario_row_a)"
    by (simp add: required_fields_def scenario_row_a_def)
  have six: "all_six_met scenario_row_a"
    by (simp add: all_six_met_def met_conditions_def total_conditions_def conditions_def
          Let_def scenario_row_a_def)
  have listed: "\<not> (case None :: string set option of None \<Rightarrow> False
                     | Some ds \<Rightarrow> ds \<noteq> {} \<and> ''600519'' \<in> ds)"
    by simp
  have miss: "cache_hit (st_cache empty_scan) morning ''600519'' = None"
    by (simp add: cache_hit_def load_cached_stock_data_def empty_scan_def)
  have u: "market_cap unknown_info = None" "fifty_two_week_high unknown_info = 0"
    "fifty_two_week_low unknown_info = 0"
    by (simp_all add: unknown_info_def)
  show ?thesis
    using u unknown_data_skips_prefilter [OF rows present six listed miss, of unknown_info some_name]
    by (simp add: market_cap_rejects_def week_52_rejects_def)
qed

subsection \<open>C8: the results are kept sorted\<close>

lemma scan_step_sorted:
  assumes "sorted (map sort_key_fn (results acc))"
  shows "sorted (map sort_key_fn (results (scan_step env ds acc item)))"
  using assms
  by (simp add: scan_step_def Let_def split: option.splits)

lemma sort_key_fn_build_result:
  "sort_key_fn (build_result symbol name info row) = round_to 2 (rs_20d_float row * 100)"
  by (simp add: sort_key_fn_def build_result_def dict_get_def Let_def)

text \<open>
  C8. After any number \<open>k\<close> of iterations of the loop of \<open>scan_market\<close> the accumulated
  results are in ascending order of the sort key, and so are the results at the end of the
  loop and the rows of the frame that is exported and persisted. The sort key of a result
  record is its 20-day increase (the 20-day return in percent, rounded to two decimals).
\<close>

theorem results_sorted_by_increase:
  "sorted (map sort_key_fn
      (results (foldl (scan_step env ds) \<lparr>results = [], skipped = [], sc_state = st\<rparr>
                  (take k (zip [1 ..< Suc (length codes)] codes)))))
   \<and> sorted (map sort_key_fn (results (scan_loop env ds st codes)))
   \<and> sorted (map sort_key_fn (scan_market env st codes))
   \<and> sort_key_fn (build_result symbol name info row) = round_to 2 (rs_20d_float row * 100)"
proof -
  have inv: "sorted (map sort_key_fn
      (results (foldl (scan_step env ds) \<lparr>results = [], skipped = [], sc_state = st\<rparr> items)))"
    for items
    by (rule foldl_preserves [where P = "\<lambda>a. sorted (map sort_key_fn (results a))"])
       (simp_all add: scan_step_sorted)
  show ?thesis
    using inv by (simp add: scan_loop_def scan_market_def sort_key_fn_build_result)
qed

lemmas scan_market_eval =
  scan_market_def scan_loop_def scan_codes_def load_delisted_stocks_def TEST_LIMIT_def
  scan_step_def zfill_def log_strong_stock_def sort_key_fn_def dict_get_def
  build_result_def round_to_def rs_20d_float_def

theorem results_sorted_by_increase_witness:
  "sorted (map sort_key_fn
     (scan_market two_strong_env empty_scan [(''000001'', some_name), (''600519'', some_name)]))
   \<and> map sort_key_fn
     (scan_market two_strong_env empty_scan [(''000001'', some_name), (''600519'', some_name)])
     = [18, 30]"
proof -
  have rows: "map sort_key_fn
     (scan_market two_strong_env empty_scan [(''000001'', some_name), (''600519'', some_name)])
     = [18, 30]"
    by (simp add: scan_market_eval scan_eval two_strong_env_def)
  show ?thesis
    using rows
      results_sorted_by_increase [of two_strong_env _ empty_scan _
        "[(''000001'', some_name), (''600519'', some_name)]"]
    by simp
qed

subsection \<open>C2: the cached negative marker\<close>

lemma first_scan_caches_marker:
  "is_strong_stock morning scenario_info (HistFrame 30 scenario_row_b) empty_scan ''600519''
     some_name (Some {})
   = (None,
      \<lparr>st_cache = [''600519'' \<mapsto> \<lparr>cache_time = morning, stock_data = weak_marker\<rparr>],
       st_delisted_file = []\<rparr>)"
  by (simp add: scan_eval weak_marker_def)

lemma noon_same_day: "date_of noon = date_of morning" "noon < morning + 86400"
  by (simp_all add: date_of_def noon_def morning_def)

text \<open>
  C2 fails on the code. The stock of scenario B is weak in the morning: the call returns
  \<open>None\<close> and caches the negative marker. At noon of the same day the call for the same
  symbol returns the cached marker itself, a non-empty dictionary, and \<open>scan_market\<close>,
  which takes every non-empty result for a strong stock, has the marker (with its flag
  that the stock did not qualify) as the one row of the frame it returns.
\<close>

theorem cached_negative_marker_surfaces:
  "fst (is_strong_stock morning scenario_info (HistFrame 30 scenario_row_b) empty_scan
         ''600519'' some_name (Some {})) = None
   \<and> fst (is_strong_stock noon scenario_info (HistFrame 30 scenario_row_b) after_first
         ''600519'' some_name (Some {})) = Some weak_marker
   \<and> scan_market (scenario_env scenario_row_b noon) after_first [(''600519'', some_name)]
       = [weak_marker]
   \<and> dict_get weak_marker K_not_qualified (VBool False) = VBool True"
proof -
  have second: "fst (is_strong_stock noon scenario_info (HistFrame 30 scenario_row_b) after_first
         ''600519'' some_name (Some {})) = Some weak_marker"
    unfolding after_first_def first_scan_caches_marker
    by (simp add: is_strong_stock_def cache_hit_def load_cached_stock_data_def
          USE_DATA_CACHE_def noon_same_day weak_marker_def negative_result_def dict_get_def)
  have scan: "scan_market (scenario_env scenario_row_b noon) after_first
                [(''600519'', some_name)] = [weak_marker]"
    unfolding after_first_def first_scan_caches_marker
    by (simp add: scan_market_def scan_loop_def scan_codes_def load_delisted_stocks_def
          TEST_LIMIT_def scan_step_def scenario_env_def zfill_def is_strong_stock_def
          cache_hit_def load_cached_stock_data_def USE_DATA_CACHE_def noon_same_day
          weak_marker_def negative_result_def dict_get_def Let_def)
  show ?thesis
    using second scan
    by (simp add: first_scan_caches_marker weak_marker_def negative_result_def dict_get_def)
qed

section \<open>Properties of the persistence (C3)\<close>

lemma insert_stock_unique:
  assumes "unique_rows tbl" "insert_stock tbl s = Some tbl'"
  shows "unique_rows tbl'"
  using assms
  by (auto simp: insert_stock_def unique_rows_def unique_key_def split: if_splits)

lemma insert_all_unique:
  assumes "unique_rows tbl" "insert_all tbl ss = Some tbl'"
  shows "unique_rows tbl'"
  using assms
proof (induction ss arbitrary: tbl)
  case Nil
  then show ?case by simp
next
  case (Cons s ss)
  then show ?case
    by (auto split: option.splits dest: insert_stock_unique)
qed

text \<open>
  The half of C3 that the code keeps: whatever is saved, and at whatever times, no two
  rows of the table share \<open>(scan_time, stock_code)\<close>.
\<close>

lemma save_never_duplicates:
  assumes "unique_rows tbl"
  shows "unique_rows (save_strong_stocks_to_db clock df tbl)"
  using assms
  by (auto simp: save_strong_stocks_to_db_def split: option.splits dest: insert_all_unique)

lemmas db_eval =
  save_strong_stocks_to_db_def df_columns_def value_columns_def strong_stock_of_row_def
  column_value_def insert_stock_def unique_key_def fresh_id_def first_frame_def
  second_frame_def build_result_def Let_def

text \<open>
  C3 fails on the code in its other half. The stock of scenario A is saved with the close
  10.5, and saved again at the same time stamp with the close 11: the second call changes
  nothing, because its insertion is refused and the transaction is rolled back. The table
  has one row, and the row has the first close, not the latest.
\<close>

theorem second_save_keeps_first_values:
  "length (save_strong_stocks_to_db (\<lambda>_. noon) first_frame []) = 1
   \<and> close_prices (save_strong_stocks_to_db (\<lambda>_. noon) first_frame []) = [Some (VNum 10.5)]
   \<and> map (\<lambda>row. column_value row K_close_price) second_frame = [Some (VNum 11)]
   \<and> save_strong_stocks_to_db (\<lambda>_. noon) second_frame
        (save_strong_stocks_to_db (\<lambda>_. noon) first_frame [])
       = save_strong_stocks_to_db (\<lambda>_. noon) first_frame []"
proof -
  have one: "length (save_strong_stocks_to_db (\<lambda>_. noon) first_frame []) = 1"
    by (simp add: db_eval)
  have first: "close_prices (save_strong_stocks_to_db (\<lambda>_. noon) first_frame [])
                 = [Some (VNum 10.5)]"
    by (simp add: db_eval close_prices_def round_to_def scenario_row_a_def)
  have latest: "map (\<lambda>row. column_value row K_close_price) second_frame = [Some (VNum 11)]"
    by (simp add: second_frame_def build_result_def column_value_def Let_def round_to_def
          scenario_row_a_def)
  have second: "save_strong_stocks_to_db (\<lambda>_. noon) second_frame
        (save_strong_stocks_to_db (\<lambda>_. noon) first_frame [])
       = save_strong_stocks_to_db (\<lambda>_. noon) first_frame []"
    by (simp add: db_eval)
  show ?thesis
    using one first latest second by simp
qed

section \<open>Properties of the universe provider (C9)\<close>

lemma get_stocks_batch_dead:
  assumes "\<forall>p b. valid_of_response (net p b) = []"
  shows "get_stocks_batch net n codes p = []"
  using assms
proof (induction net n codes p rule: get_stocks_batch.induct)
  case (1 net batch_size codes market_prefix)
  show ?case
  proof (cases "batch_size = 0 \<or> codes = []")
    case True
    then show ?thesis by (subst get_stocks_batch.simps) simp
  next
    case False
    then show ?thesis
      using 1 by (subst get_stocks_batch.simps) simp
  qed
qed

lemma fromkeys_acc:
  "distinct acc \<Longrightarrow>
   distinct (foldl (\<lambda>acc x. if x \<in> set acc then acc else acc @ [x]) acc xs)
   \<and> set (foldl (\<lambda>acc x. if x \<in> set acc then acc else acc @ [x]) acc xs) = set acc \<union> set xs"
  by (induction xs arbitrary: acc) auto

lemma dict_fromkeys_distinct: "distinct (dict_fromkeys xs)" "set (dict_fromkeys xs) = set xs"
  using fromkeys_acc [of "[]" xs] by (simp_all add: dict_fromkeys_def)

lemma builtin_length: "length get_builtin_cn_stocks = 128"
  by (simp add: get_builtin_cn_stocks_def)

text \<open>
  C9. If no request of the live enumeration yields a valid stock (each raises, or answers
  with another status than 200, or with no usable line), and in general whenever the live
  list is empty, \<open>fetch_all_cn_stocks\<close> returns the embedded list of 128 stocks; every
  exception of a request is caught inside the loop, so the function has no raising path.
  A live list that is not empty is returned without duplicates and with the same members.
\<close>

theorem fallback_to_builtin_list:
  "((\<forall>p b. valid_of_response (net p b) = []) \<longrightarrow> fetch_all_cn_stocks net = get_builtin_cn_stocks)
   \<and> (live_stocks net = [] \<longrightarrow> fetch_all_cn_stocks net = get_builtin_cn_stocks)
   \<and> length get_builtin_cn_stocks = 128
   \<and> (live_stocks net \<noteq> [] \<longrightarrow> distinct (fetch_all_cn_stocks net)
          \<and> set (fetch_all_cn_stocks net) = set (live_stocks net))"
proof -
  have "live_stocks net = []" if "\<forall>p b. valid_of_response (net p b) = []"
    using get_stocks_batch_dead [OF that]
    by (simp add: live_stocks_def get_stocks_batch_tencent_def)
  then show ?thesis
    by (simp add: fetch_all_cn_stocks_def Let_def dict_fromkeys_distinct builtin_length)
qed

lemma code_range_nonempty: "lo < hi \<Longrightarrow> code_range lo hi \<noteq> []"
  by (simp add: code_range_def)

lemma sh_nonempty: "sh_codes \<noteq> []"
  unfolding sh_codes_def using code_range_nonempty [of 600000 606000] by simp

lemma echo_live: "live_stocks echo_network \<noteq> []"
proof -
  have "get_stocks_batch echo_network 100 sh_codes ''sh'' \<noteq> []"
    using sh_nonempty
    by (subst get_stocks_batch.simps) (simp add: echo_network_def some_name_def)
  then show ?thesis
    by (simp add: live_stocks_def get_stocks_batch_tencent_def)
qed

theorem fallback_to_builtin_list_witness:
  "fetch_all_cn_stocks dead_network = get_builtin_cn_stocks
   \<and> get_builtin_cn_stocks \<noteq> []
   \<and> distinct (fetch_all_cn_stocks echo_network)"
proof -
  have dead: "\<forall>p b. valid_of_response (dead_network p b) = []"
    by (simp add: dead_network_def)
  have "length get_builtin_cn_stocks \<noteq> 0"
    using fallback_to_builtin_list [of dead_network] by simp
  then have "get_builtin_cn_stocks \<noteq> []"
    by simp
  then show ?thesis
    using dead echo_live fallback_to_builtin_list [of dead_network]
      fallback_to_builtin_list [of echo_network]
    by simp
qed


end
